theory Spec2Isabelle
  imports Complex_Main "HOL-Library.Word"
begin

section \<open>External collaborators of the wallet service\<close>

text \<open>
  The service (package \<open>services\<close>) orchestrates calls into the Stellar Go SDK
  (\<open>keypair\<close>, \<open>txnbuild\<close>, \<open>network\<close>, \<open>horizonclient\<close>), into \<open>strconv\<close> and into
  the remote ledger node. None of these is part of the repository, so their data is
  modelled by the types below and their behaviour is a parameter of every service
  function (the record \<open>env\<close>).
\<close>

subsection \<open>Package keypair\<close>

text \<open>\<open>*keypair.Full\<close> can sign; \<open>*keypair.FromAddress\<close> carries an address only.
  \<open>keypair.KP\<close> is the interface both implement.\<close>

record Full =
  Address :: string
  Seed :: string

datatype KP = KPFull Full | KPFromAddress string

fun KP_Address :: "KP \<Rightarrow> string" where
  "KP_Address (KPFull kp) = Address kp"
| "KP_Address (KPFromAddress a) = a"

subsection \<open>Package strconv: float64 values\<close>

text \<open>A \<open>float64\<close> is a NaN, an infinity or a finite (dyadic) rational; the two zeros
  are not told apart, both being \<open>\<le> 0\<close>. The comparison \<open>f <= 0\<close> of Go is false for
  NaN.\<close>

datatype float64 = NaN | PosInf | NegInf | Finite rat

fun float64_le_zero :: "float64 \<Rightarrow> bool" where
  "float64_le_zero NaN = False"
| "float64_le_zero PosInf = False"
| "float64_le_zero NegInf = True"
| "float64_le_zero (Finite q) = (q \<le> 0)"

subsection \<open>Package horizonclient and the ledger node\<close>

datatype Client = DefaultTestNetClient | DefaultPublicNetClient

text \<open>One entry of \<open>account.Balances\<close> (the asset fields are those of the embedded
  \<open>base.Asset\<close>).\<close>

record horizon_Balance =
  bal_Balance :: string
  bal_Limit :: string
  bal_BuyingLiabilities :: string
  bal_SellingLiabilities :: string
  bal_Type :: string
  bal_Code :: string
  bal_Issuer :: string

record Account =
  AccountID :: string
  Sequence :: "64 word"
  acc_Balances :: "horizon_Balance list"

text \<open>An error of the client is either a \<open>*horizonclient.Error\<close>, with the HTTP status
  of the node's response, the \<open>Problem.Detail\<close> text and the text of \<open>Error()\<close>, or any
  other Go error, of which only the text of \<open>Error()\<close> is used.\<close>

datatype client_error =
    HorizonError (StatusCode: nat) (Detail: string) (horizon_text: string)
  | OtherError string

fun Error :: "client_error \<Rightarrow> string" where
  "Error (HorizonError st d t) = t"
| "Error (OtherError t) = t"

record TransactionResponse =
  Hash :: string

definition StatusOK :: nat where "StatusOK = 200"
definition StatusBadRequest :: nat where "StatusBadRequest = 400"
definition StatusNotFound :: nat where "StatusNotFound = 404"
definition StatusInternalServerError :: nat where "StatusInternalServerError = 500"

subsection \<open>Packages txnbuild and network\<close>

record CreditAsset =
  asset_Code :: string
  asset_Issuer :: string

datatype ChangeTrustAsset = ChangeTrustAssetWrapper CreditAsset

datatype Operation =
    CreateAccount string string
  | ChangeTrust ChangeTrustAsset
  | Payment string string CreditAsset

text \<open>\<open>CreateAccount destination amount\<close>, \<open>ChangeTrust line\<close> and
  \<open>Payment destination amount asset\<close> carry the fields the service sets.\<close>

record TimeBounds =
  MinTime :: int
  MaxTime :: int

record TransactionParams =
  SourceAccount :: Account
  Operations :: "Operation list"
  BaseFee :: int
  Preconditions :: TimeBounds
  IncrementSequenceNum :: bool

text \<open>A signature is kept symbolically: the network passphrase it is bound to and the
  keypair that made it.\<close>

datatype Signature = Signature string Full

record Transaction =
  tx_SourceAccount :: string
  tx_Sequence :: "64 word"
  tx_Operations :: "Operation list"
  tx_BaseFee :: int
  tx_TimeBounds :: TimeBounds
  tx_Signatures :: "Signature list"

text \<open>The constants \<open>txnbuild.MinBaseFee\<close>, \<open>network.TestNetworkPassphrase\<close> and
  \<open>network.PublicNetworkPassphrase\<close> of the SDK.\<close>

definition MinBaseFee :: int where "MinBaseFee = 100"

definition TestNetworkPassphrase :: string where
  "TestNetworkPassphrase = ''Test SDF Network ; September 2015''"

definition PublicNetworkPassphrase :: string where
  "PublicNetworkPassphrase = ''Public Global Stellar Network ; September 2015''"

subsection \<open>The environment\<close>

text \<open>
  Everything the service cannot decide by itself: the random source, the key and number
  parsers, the validation done by the SDK, the clock, and the answers of the ledger
  node. Go functions returning \<open>(value, error)\<close> return a sum, \<open>Inl\<close> carrying the
  text of the error.
\<close>

record env =
  keypair_Random :: "string + Full"
  keypair_Parse :: "string \<Rightarrow> string + KP"
  keypair_ParseFull :: "string \<Rightarrow> string + Full"
  keypair_ParseAddress :: "string \<Rightarrow> string + string"
  strconv_ParseFloat :: "string \<Rightarrow> string + float64"
  asset_error :: "CreditAsset \<Rightarrow> string option"
  operation_error :: "Operation \<Rightarrow> string option"
  sign_error :: "string \<Rightarrow> Full list \<Rightarrow> Transaction \<Rightarrow> string option"
  time_Now :: int
  AccountDetail :: "Client \<Rightarrow> string \<Rightarrow> client_error + Account"
  SubmitTransaction :: "Client \<Rightarrow> Transaction \<Rightarrow> client_error + TransactionResponse"

text \<open>
  Modelled from the spec: \<open>CreditAsset.ToChangeTrustAsset\<close> is a method of the Stellar
  SDK, which is not under src/. The trustline operation of sections 3 and 4.5 of the
  specification carries the designated asset itself, so the conversion wraps the asset;
  whether it fails is left to the environment.
\<close>

definition ToChangeTrustAsset :: "env \<Rightarrow> CreditAsset \<Rightarrow> string + ChangeTrustAsset" where
  "ToChangeTrustAsset E a =
     (case asset_error E a of
        Some err \<Rightarrow> Inl err
      | None \<Rightarrow> Inr (ChangeTrustAssetWrapper a))"

text \<open>
  Modelled from the spec: \<open>txnbuild.NewTimeout\<close> is a function of the Stellar SDK, which
  is not under src/. Section 4.2 of the specification: the expiry is the current time
  plus the validity window, in seconds; there is no lower bound.
\<close>

definition NewTimeout :: "env \<Rightarrow> int \<Rightarrow> TimeBounds" where
  "NewTimeout E t = \<lparr>MinTime = 0, MaxTime = time_Now E + t\<rparr>"

text \<open>The error of the first element of a list that has one.\<close>

fun first_error :: "('a \<Rightarrow> string option) \<Rightarrow> 'a list \<Rightarrow> string option" where
  "first_error f [] = None"
| "first_error f (x # xs) = (case f x of Some err \<Rightarrow> Some err | None \<Rightarrow> first_error f xs)"

text \<open>
  Modelled from the spec: \<open>txnbuild.NewTransaction\<close> is a function of the Stellar SDK,
  which is not under src/. Section 4.2 of the specification gives its contract: it
  increments the source account's sequence number exactly once per envelope (when
  \<open>IncrementSequenceNum\<close> is set), preserves the operation order as given, takes over
  the base fee and the time bounds, and fails when an operation has an invalid
  parameter (which operations are invalid is left to the environment). The envelope is
  unsigned.
\<close>

definition NewTransaction :: "env \<Rightarrow> TransactionParams \<Rightarrow> string + Transaction" where
  "NewTransaction E p =
     (case first_error (operation_error E) (Operations p) of
        Some err \<Rightarrow> Inl err
      | None \<Rightarrow>
          Inr \<lparr>tx_SourceAccount = AccountID (SourceAccount p),
               tx_Sequence = (if IncrementSequenceNum p
                              then Sequence (SourceAccount p) + 1
                              else Sequence (SourceAccount p)),
               tx_Operations = Operations p,
               tx_BaseFee = BaseFee p,
               tx_TimeBounds = Preconditions p,
               tx_Signatures = []\<rparr>)"

text \<open>
  Modelled from the spec: \<open>Transaction.Sign\<close> is a method of the Stellar SDK, which is
  not under src/. Section 4.3 of the specification: each signing key contributes one
  signature, bound to the network identity; nothing else of the envelope changes.
  When signing fails is left to the environment.
\<close>

definition Sign :: "env \<Rightarrow> string \<Rightarrow> Full list \<Rightarrow> Transaction \<Rightarrow> string + Transaction" where
  "Sign E passphrase kps tx =
     (case sign_error E passphrase kps tx of
        Some err \<Rightarrow> Inl err
      | None \<Rightarrow> Inr (tx\<lparr>tx_Signatures := tx_Signatures tx @ map (Signature passphrase) kps\<rparr>))"

section \<open>Package models\<close>

record WalletResponse =
  PublicKey :: string
  SecretKey :: string
  Message :: string

record BalanceEntry =
  AssetType :: string
  AssetCode :: string
  Issuer :: string
  Balance :: string

record WalletDetailsResponse =
  PublicKey :: string
  Exists :: bool
  Balances :: "BalanceEntry list"
  SequenceNumber :: "64 word"

record TransferRequest =
  FromSecretKey :: string
  ToPublicKey :: string
  Amount :: string

record TransferResponse =
  TransactionHash :: string
  Message :: string

section \<open>Package services\<close>

record Config =
  Network :: string
  MasterSecret :: string
  HorizonClient :: Client
  USDCAsset :: CreditAsset

text \<open>The calls that reach the ledger node, in the order they are made. Every service
  function returns its Go result together with the list of the calls it made.\<close>

datatype event =
    AccountDetailCall Client string
  | SubmitTransactionCall Client Transaction

fun is_submit :: "event \<Rightarrow> bool" where
  "is_submit (SubmitTransactionCall c tx) = True"
| "is_submit (AccountDetailCall c a) = False"

fun event_client :: "event \<Rightarrow> Client" where
  "event_client (SubmitTransactionCall c tx) = c"
| "event_client (AccountDetailCall c a) = c"

text \<open>The block \<open>if s.Config.Network == "testnet" { ... } else { ... }\<close> of
  \<open>CreateWallet\<close> and \<open>TransferFunds\<close>.\<close>

definition networkPassphrase :: "Config \<Rightarrow> string" where
  "networkPassphrase cfg =
     (if Network cfg = ''testnet'' then TestNetworkPassphrase else PublicNetworkPassphrase)"

text \<open>The handling of a failed \<open>SubmitTransaction\<close>, the same in both functions.\<close>

fun submit_failure :: "client_error \<Rightarrow> string" where
  "submit_failure (HorizonError st d t) = ''transaction failed: '' @ d"
| "submit_failure (OtherError t) = ''failed to submit transaction: '' @ t"

subsection \<open>CreateWallet\<close>

text \<open>The three operations of the funding envelope and the call of
  \<open>txnbuild.NewTransaction\<close> (lines 94 to 102).\<close>

definition CreateWallet_build ::
  "env \<Rightarrow> Config \<Rightarrow> string \<Rightarrow> ChangeTrustAsset \<Rightarrow> Account \<Rightarrow> string + Transaction" where
  "CreateWallet_build E cfg publicKey usdcChangeTrustAsset sourceAccount =
     NewTransaction E
       \<lparr>SourceAccount = sourceAccount,
        Operations = [CreateAccount publicKey ''0.5'',
                      ChangeTrust usdcChangeTrustAsset,
                      Payment publicKey ''100'' (USDCAsset cfg)],
        BaseFee = MinBaseFee,
        Preconditions = NewTimeout E 300,
        IncrementSequenceNum = True\<rparr>"

definition CreateWallet :: "env \<Rightarrow> Config \<Rightarrow> (string + WalletResponse) \<times> event list" where
  "CreateWallet E cfg =
     (case keypair_Random E of
        Inl err \<Rightarrow> (Inl (''failed to generate keypair: '' @ err), [])
      | Inr kp \<Rightarrow>
     (case keypair_Parse E (MasterSecret cfg) of
        Inl err \<Rightarrow> (Inl (''invalid master secret key: '' @ err), [])
      | Inr masterKP \<Rightarrow>
     (case ToChangeTrustAsset E (USDCAsset cfg) of
        Inl err \<Rightarrow> (Inl (''failed to create USDC trustline asset: '' @ err), [])
      | Inr usdcChangeTrustAsset \<Rightarrow>
     (case AccountDetail E (HorizonClient cfg) (KP_Address masterKP) of
        Inl err \<Rightarrow>
          (Inl (''failed to fetch master account details: '' @ Error err),
           [AccountDetailCall (HorizonClient cfg) (KP_Address masterKP)])
      | Inr sourceAccount \<Rightarrow>
     (case CreateWallet_build E cfg (Address kp) usdcChangeTrustAsset sourceAccount of
        Inl err \<Rightarrow>
          (Inl (''failed to build transaction: '' @ err),
           [AccountDetailCall (HorizonClient cfg) (KP_Address masterKP)])
      | Inr tx \<Rightarrow>
     (case masterKP of
        KPFromAddress a \<Rightarrow>
          (Inl ''master key is not a full keypair'',
           [AccountDetailCall (HorizonClient cfg) (KP_Address masterKP)])
      | KPFull masterFullKP \<Rightarrow>
     (case Sign E (networkPassphrase cfg) [masterFullKP, kp] tx of
        Inl err \<Rightarrow>
          (Inl (''failed to sign transaction: '' @ err),
           [AccountDetailCall (HorizonClient cfg) (KP_Address masterKP)])
      | Inr signedTx \<Rightarrow>
     (case SubmitTransaction E (HorizonClient cfg) signedTx of
        Inl err \<Rightarrow>
          (Inl (submit_failure err),
           [AccountDetailCall (HorizonClient cfg) (KP_Address masterKP),
            SubmitTransactionCall (HorizonClient cfg) signedTx])
      | Inr resp \<Rightarrow>
          (Inr \<lparr>WalletResponse.PublicKey = Address kp,
                WalletResponse.SecretKey = Seed kp,
                WalletResponse.Message = ''Wallet created, trusted USDC, and funded successfully. Hash: ''
                            @ Hash resp\<rparr>,
           [AccountDetailCall (HorizonClient cfg) (KP_Address masterKP),
            SubmitTransactionCall (HorizonClient cfg) signedTx])))))))))"

subsection \<open>GetWalletDetails\<close>

definition to_entry :: "horizon_Balance \<Rightarrow> BalanceEntry" where
  "to_entry balance =
     \<lparr>AssetType = bal_Type balance,
      AssetCode = bal_Code balance,
      Issuer = bal_Issuer balance,
      Balance = bal_Balance balance\<rparr>"

text \<open>The loop \<open>for _, balance := range account.Balances { balances = append(...) }\<close>,
  with the slice built so far as accumulator.\<close>

fun append_balances :: "BalanceEntry list \<Rightarrow> horizon_Balance list \<Rightarrow> BalanceEntry list" where
  "append_balances balances [] = balances"
| "append_balances balances (balance # rest) =
     append_balances (balances @ [to_entry balance]) rest"

definition GetWalletDetails ::
  "env \<Rightarrow> Config \<Rightarrow> string \<Rightarrow> (string + WalletDetailsResponse) \<times> event list" where
  "GetWalletDetails E cfg publicKey =
     (case keypair_ParseAddress E publicKey of
        Inl err \<Rightarrow> (Inl ''invalid public key format'', [])
      | Inr a \<Rightarrow>
     (case AccountDetail E (HorizonClient cfg) publicKey of
        Inl err \<Rightarrow>
          (case err of
             HorizonError st d t \<Rightarrow>
               if st = StatusNotFound
               then (Inr \<lparr>PublicKey = publicKey, Exists = False, Balances = [],
                          SequenceNumber = 0\<rparr>,
                     [AccountDetailCall (HorizonClient cfg) publicKey])
               else (Inl (''failed to fetch wallet details: '' @ Error err),
                     [AccountDetailCall (HorizonClient cfg) publicKey])
           | OtherError t \<Rightarrow>
               (Inl (''failed to fetch wallet details: '' @ Error err),
                [AccountDetailCall (HorizonClient cfg) publicKey]))
      | Inr account \<Rightarrow>
          (Inr \<lparr>PublicKey = publicKey, Exists = True,
                Balances = append_balances [] (acc_Balances account),
                SequenceNumber = Sequence account\<rparr>,
           [AccountDetailCall (HorizonClient cfg) publicKey])))"

subsection \<open>TransferFunds\<close>

text \<open>The condition \<open>err != nil || amountFloat <= 0\<close> on the result of
  \<open>strconv.ParseFloat(req.Amount, 64)\<close>.\<close>

definition amount_rejected :: "env \<Rightarrow> string \<Rightarrow> bool" where
  "amount_rejected E amount =
     (case strconv_ParseFloat E amount of
        Inl err \<Rightarrow> True
      | Inr amountFloat \<Rightarrow> float64_le_zero amountFloat)"

text \<open>The payment operation and the call of \<open>txnbuild.NewTransaction\<close>
  (lines 212 to 226).\<close>

definition TransferFunds_build ::
  "env \<Rightarrow> Config \<Rightarrow> TransferRequest \<Rightarrow> Account \<Rightarrow> string + Transaction" where
  "TransferFunds_build E cfg req sourceAccount =
     NewTransaction E
       \<lparr>SourceAccount = sourceAccount,
        Operations = [Payment (ToPublicKey req) (Amount req) (USDCAsset cfg)],
        BaseFee = MinBaseFee,
        Preconditions = NewTimeout E 300,
        IncrementSequenceNum = True\<rparr>"

definition TransferFunds ::
  "env \<Rightarrow> Config \<Rightarrow> TransferRequest \<Rightarrow> (string + TransferResponse) \<times> event list" where
  "TransferFunds E cfg req =
     (case keypair_ParseFull E (FromSecretKey req) of
        Inl err \<Rightarrow> (Inl ''invalid sender secret key'', [])
      | Inr senderKP \<Rightarrow>
     (case keypair_ParseAddress E (ToPublicKey req) of
        Inl err \<Rightarrow> (Inl ''invalid recipient public key'', [])
      | Inr a \<Rightarrow>
     (if amount_rejected E (Amount req)
      then (Inl ''invalid amount: must be a positive number'', [])
      else
     (case AccountDetail E (HorizonClient cfg) (Address senderKP) of
        Inl err \<Rightarrow>
          (Inl (''failed to fetch sender account details: '' @ Error err),
           [AccountDetailCall (HorizonClient cfg) (Address senderKP)])
      | Inr sourceAccount \<Rightarrow>
     (case TransferFunds_build E cfg req sourceAccount of
        Inl err \<Rightarrow>
          (Inl (''failed to build transaction: '' @ err),
           [AccountDetailCall (HorizonClient cfg) (Address senderKP)])
      | Inr tx \<Rightarrow>
     (case Sign E (networkPassphrase cfg) [senderKP] tx of
        Inl err \<Rightarrow>
          (Inl (''failed to sign transaction: '' @ err),
           [AccountDetailCall (HorizonClient cfg) (Address senderKP)])
      | Inr signedTx \<Rightarrow>
     (case SubmitTransaction E (HorizonClient cfg) signedTx of
        Inl err \<Rightarrow>
          (Inl (submit_failure err),
           [AccountDetailCall (HorizonClient cfg) (Address senderKP),
            SubmitTransactionCall (HorizonClient cfg) signedTx])
      | Inr resp \<Rightarrow>
          (Inr \<lparr>TransferResponse.TransactionHash = Hash resp,
                TransferResponse.Message = ''USDC transferred successfully''\<rparr>,
           [AccountDetailCall (HorizonClient cfg) (Address senderKP),
            SubmitTransactionCall (HorizonClient cfg) signedTx]))))))))"

text \<open>
  The request fields that fail their check, each by the message of its check, in the
  order sender secret, recipient address, amount. This list is not computed by the
  service; it states what ``the first invalid field'' of a request is.
\<close>

definition invalid_fields :: "env \<Rightarrow> TransferRequest \<Rightarrow> string list" where
  "invalid_fields E req =
     (if isl (keypair_ParseFull E (FromSecretKey req))
      then [''invalid sender secret key''] else [])
     @ (if isl (keypair_ParseAddress E (ToPublicKey req))
        then [''invalid recipient public key''] else [])
     @ (if amount_rejected E (Amount req)
        then [''invalid amount: must be a positive number''] else [])"

section \<open>Package main: the configuration\<close>

text \<open>\<open>main\<close> reads two environment variables (\<open>os.Getenv\<close> gives the empty string
  for an unset variable) and picks the Horizon client from the network name.\<close>

definition main_config :: "(string \<Rightarrow> string) \<Rightarrow> Config" where
  "main_config getenv =
     \<lparr>Network = getenv ''STELLAR_NETWORK'',
      MasterSecret = getenv ''MASTER_SECRET_KEY'',
      HorizonClient = (if getenv ''STELLAR_NETWORK'' = ''testnet''
                       then DefaultTestNetClient
                       else DefaultPublicNetClient),
      USDCAsset = \<lparr>asset_Code = ''USDC'',
        asset_Issuer = ''GA5ZSEJYB37JRC5AVCIA5MOP4RHTM335X2KGX3IHOJAPP5RE34KPPVPQS''\<rparr>\<rparr>"

section \<open>Package controllers\<close>

text \<open>What a handler writes with \<open>c.JSON(status, body)\<close>: the status and either
  \<open>gin.H{"error": text}\<close> or one of the response structs. Errors of the service are Go
  \<open>error\<close> values made by \<open>errors.New\<close>: they carry their text and nothing else.\<close>

datatype body =
    ErrorBody string
  | WalletBody WalletResponse
  | DetailsBody WalletDetailsResponse
  | TransferBody TransferResponse

text \<open>The part of each handler that follows the call of the service.\<close>

definition CreateWallet_respond :: "string + WalletResponse \<Rightarrow> nat \<times> body" where
  "CreateWallet_respond r =
     (case r of
        Inl err \<Rightarrow> (StatusInternalServerError, ErrorBody err)
      | Inr response \<Rightarrow> (StatusOK, WalletBody response))"

definition GetWalletDetails_respond :: "string + WalletDetailsResponse \<Rightarrow> nat \<times> body" where
  "GetWalletDetails_respond r =
     (case r of
        Inl err \<Rightarrow>
          if err = ''invalid public key format''
          then (StatusBadRequest, ErrorBody err)
          else (StatusInternalServerError, ErrorBody err)
      | Inr response \<Rightarrow> (StatusOK, DetailsBody response))"

definition TransferFunds_respond :: "string + TransferResponse \<Rightarrow> nat \<times> body" where
  "TransferFunds_respond r =
     (case r of
        Inl err \<Rightarrow>
          if err = ''invalid sender secret key'' \<or> err = ''invalid recipient public key''
               \<or> err = ''invalid amount: must be a positive number''
          then (StatusBadRequest, ErrorBody err)
          else (StatusInternalServerError, ErrorBody err)
      | Inr response \<Rightarrow> (StatusOK, TransferBody response))"

definition WalletController_CreateWallet :: "env \<Rightarrow> Config \<Rightarrow> nat \<times> body" where
  "WalletController_CreateWallet E cfg = CreateWallet_respond (fst (CreateWallet E cfg))"

definition WalletController_GetWalletDetails :: "env \<Rightarrow> Config \<Rightarrow> string \<Rightarrow> nat \<times> body" where
  "WalletController_GetWalletDetails E cfg publicKey =
     GetWalletDetails_respond (fst (GetWalletDetails E cfg publicKey))"

text \<open>The argument \<open>bound\<close> is the outcome of \<open>c.ShouldBindJSON(&req)\<close>.\<close>

definition WalletController_TransferFunds ::
  "env \<Rightarrow> Config \<Rightarrow> string + TransferRequest \<Rightarrow> nat \<times> body" where
  "WalletController_TransferFunds E cfg bound =
     (case bound of
        Inl err \<Rightarrow> (StatusBadRequest, ErrorBody (''invalid request body: '' @ err))
      | Inr req \<Rightarrow> TransferFunds_respond (fst (TransferFunds E cfg req)))"

section \<open>A concrete environment\<close>

text \<open>
  A small ledger with a funded master account and a funded sender, on which the
  service functions can be evaluated. The parsers know the keys and the amounts listed
  here and reject every other string.
\<close>

definition master_seed :: string where
  "master_seed = ''SAV76USXIJOBMEQXPANUOQM6F5LIOTLPDIDVRJBFFE2MDJXG24TAPUU7''"
definition master_address :: string where
  "master_address = ''GCFXHS4GXL6BVUCXBWXGTITROWLVYXQKQLF4YH5O5JT3YZXCYPAFBJZB''"
definition sender_seed :: string where
  "sender_seed = ''SCZANGBA5YHTNYVVV4C3U252E2B6P6F5T3U6MM63WBSBZATAQI3EBTQ4''"
definition sender_address :: string where
  "sender_address = ''GAAZI4TCR3TY5OJHCTJC2A4QSY6CJWJH5IAJTGKIN2ER7LBNVKOCCWN7''"
definition new_seed :: string where
  "new_seed = ''SDJHRQF4GCMIIKAAAQ6IHY42X73FQFLHUULAPSKKD4DFDM7UXWWCRHBE''"
definition new_address :: string where
  "new_address = ''GDQP2KPQGKIHYJGXNUIYOMHARUARCA7DJT5FO2FFOOKY3B2WSQHG4W37''"
definition recipient_address :: string where
  "recipient_address = ''GA2C5RFPE6GCKMY3US5PAB6UZLKIGSPIUKSLRB6Q723BM2OARMDUYEJ5''"

definition master_kp :: Full where
  "master_kp = \<lparr>Address = master_address, Seed = master_seed\<rparr>"
definition sender_kp :: Full where
  "sender_kp = \<lparr>Address = sender_address, Seed = sender_seed\<rparr>"
definition new_kp :: Full where
  "new_kp = \<lparr>Address = new_address, Seed = new_seed\<rparr>"

definition usdc :: CreditAsset where
  "usdc = \<lparr>asset_Code = ''USDC'',
            asset_Issuer = ''GA5ZSEJYB37JRC5AVCIA5MOP4RHTM335X2KGX3IHOJAPP5RE34KPPVPQS''\<rparr>"

definition native_balance :: horizon_Balance where
  "native_balance =
     \<lparr>bal_Balance = ''1000.0000000'', bal_Limit = '''',
      bal_BuyingLiabilities = ''0.0000000'', bal_SellingLiabilities = ''0.0000000'',
      bal_Type = ''native'', bal_Code = '''', bal_Issuer = ''''\<rparr>"

definition usdc_balance :: horizon_Balance where
  "usdc_balance =
     \<lparr>bal_Balance = ''500.0000000'', bal_Limit = ''922337203685.4775807'',
      bal_BuyingLiabilities = ''0.0000000'', bal_SellingLiabilities = ''0.0000000'',
      bal_Type = ''credit_alphanum4'', bal_Code = asset_Code usdc,
      bal_Issuer = asset_Issuer usdc\<rparr>"

definition master_account :: Account where
  "master_account =
     \<lparr>AccountID = master_address, Sequence = 41,
      acc_Balances = [usdc_balance, native_balance]\<rparr>"

definition sender_account :: Account where
  "sender_account =
     \<lparr>AccountID = sender_address, Sequence = 7,
      acc_Balances = [usdc_balance, native_balance]\<rparr>"

definition demo_env :: env where
  "demo_env =
     \<lparr>keypair_Random = Inr new_kp,
      keypair_Parse = (\<lambda>s.
        if s = master_seed then Inr (KPFull master_kp)
        else if s = master_address then Inr (KPFromAddress master_address)
        else Inl ''invalid key''),
      keypair_ParseFull = (\<lambda>s.
        if s = master_seed then Inr master_kp
        else if s = sender_seed then Inr sender_kp
        else Inl ''invalid seed''),
      keypair_ParseAddress = (\<lambda>s.
        if s = master_address \<or> s = sender_address \<or> s = recipient_address
             \<or> s = new_address
        then Inr s else Inl ''invalid address''),
      strconv_ParseFloat = (\<lambda>s.
        if s = ''10'' then Inr (Finite 10)
        else if s = ''0'' then Inr (Finite 0)
        else if s = ''-5'' then Inr (Finite (- 5))
        else if s = ''NaN'' then Inr NaN
        else if s = ''+Inf'' then Inr PosInf
        else Inl ''invalid syntax''),
      asset_error = (\<lambda>a. None),
      operation_error = (\<lambda>op. None),
      sign_error = (\<lambda>passphrase kps tx. None),
      time_Now = 1700000000,
      AccountDetail = (\<lambda>c a.
        if a = master_address then Inr master_account
        else if a = sender_address then Inr sender_account
        else Inl (HorizonError 404 ''Resource Missing'' ''horizon error: Resource Missing'')),
      SubmitTransaction = (\<lambda>c tx. Inr \<lparr>Hash = ''3389e9f0f1a65f19736cacf544c2e825313e8447f569233bb8db39aa607c8889''\<rparr>)\<rparr>"

text \<open>The same ledger with a node that refuses every submission.\<close>

definition rejecting_env :: env where
  "rejecting_env =
     demo_env\<lparr>SubmitTransaction :=
       (\<lambda>c tx. Inl (HorizonError 400 ''tx_bad_seq'' ''horizon error: Transaction Failed''))\<rparr>"

text \<open>The same ledger with a transaction builder that refuses a payment of ``NaN'' or
  of ``+Inf''.\<close>

definition validating_env :: env where
  "validating_env =
     demo_env\<lparr>operation_error :=
       (\<lambda>op. case op of
          Payment destination amount asset \<Rightarrow>
            if amount = ''NaN'' \<or> amount = ''+Inf''
            then Some ''invalid amount format'' else None
        | CreateAccount destination amount \<Rightarrow> None
        | ChangeTrust line \<Rightarrow> None)\<rparr>"

definition testnet_config :: Config where
  "testnet_config =
     main_config (\<lambda>name. if name = ''STELLAR_NETWORK'' then ''testnet''
                          else if name = ''MASTER_SECRET_KEY'' then master_seed else '''')"

text \<open>The configuration of a process started with \<open>STELLAR_NETWORK\<close> unset.\<close>

definition unset_config :: Config where
  "unset_config =
     main_config (\<lambda>name. if name = ''MASTER_SECRET_KEY'' then master_seed else '''')"

section \<open>Auxiliary facts\<close>

lemmas demo_keys = master_seed_def master_address_def sender_seed_def sender_address_def
  new_seed_def new_address_def recipient_address_def

lemmas demo_defs = demo_env_def rejecting_env_def validating_env_def master_kp_def sender_kp_def new_kp_def
  master_account_def sender_account_def testnet_config_def unset_config_def main_config_def
  usdc_def

lemmas service_defs = CreateWallet_def CreateWallet_build_def TransferFunds_def
  TransferFunds_build_def GetWalletDetails_def NewTransaction_def NewTimeout_def Sign_def
  ToChangeTrustAsset_def networkPassphrase_def amount_rejected_def MinBaseFee_def

lemma ToChangeTrustAsset_Inr:
  "ToChangeTrustAsset E a = Inr line \<Longrightarrow> line = ChangeTrustAssetWrapper a"
  by (auto simp: ToChangeTrustAsset_def split: option.splits)

lemma NewTransaction_Inr:
  "NewTransaction E p = Inr tx \<Longrightarrow>
     tx = \<lparr>tx_SourceAccount = AccountID (SourceAccount p),
           tx_Sequence = (if IncrementSequenceNum p then Sequence (SourceAccount p) + 1
                          else Sequence (SourceAccount p)),
           tx_Operations = Operations p, tx_BaseFee = BaseFee p,
           tx_TimeBounds = Preconditions p, tx_Signatures = []\<rparr>"
  by (auto simp: NewTransaction_def split: option.splits)

lemma Sign_Inr:
  "Sign E passphrase kps tx = Inr signedTx \<Longrightarrow>
     signedTx = tx\<lparr>tx_Signatures := tx_Signatures tx @ map (Signature passphrase) kps\<rparr>"
  by (auto simp: Sign_def split: option.splits)

lemma CreateWallet_build_Inr:
  assumes "CreateWallet_build E cfg publicKey line sourceAccount = Inr tx"
  shows "tx_SourceAccount tx = AccountID sourceAccount"
    and "tx_Sequence tx = Sequence sourceAccount + 1"
    and "tx_Operations tx = [CreateAccount publicKey ''0.5'', ChangeTrust line,
                             Payment publicKey ''100'' (USDCAsset cfg)]"
    and "tx_BaseFee tx = MinBaseFee"
    and "tx_TimeBounds tx = \<lparr>MinTime = 0, MaxTime = time_Now E + 300\<rparr>"
    and "tx_Signatures tx = []"
  using NewTransaction_Inr [OF assms [unfolded CreateWallet_build_def]]
  by (simp_all add: NewTimeout_def)

lemma TransferFunds_build_Inr:
  assumes "TransferFunds_build E cfg req sourceAccount = Inr tx"
  shows "tx_SourceAccount tx = AccountID sourceAccount"
    and "tx_Sequence tx = Sequence sourceAccount + 1"
    and "tx_Operations tx = [Payment (ToPublicKey req) (Amount req) (USDCAsset cfg)]"
    and "tx_BaseFee tx = MinBaseFee"
    and "tx_TimeBounds tx = \<lparr>MinTime = 0, MaxTime = time_Now E + 300\<rparr>"
    and "tx_Signatures tx = []"
  using NewTransaction_Inr [OF assms [unfolded TransferFunds_build_def]]
  by (simp_all add: NewTimeout_def)

lemma append_balances_map: "append_balances acc bs = acc @ map to_entry bs"
  by (induction bs arbitrary: acc) simp_all

lemma demo_parse_recipient:
  "keypair_ParseAddress demo_env recipient_address = Inr recipient_address"
  by (simp add: demo_env_def)

lemma demo_recipient_absent:
  "AccountDetail demo_env c recipient_address
     = Inl (HorizonError StatusNotFound ''Resource Missing'' ''horizon error: Resource Missing'')"
  by (simp add: demo_env_def recipient_address_def master_address_def sender_address_def
        StatusNotFound_def)

lemma demo_parse_garbage:
  "keypair_ParseAddress demo_env ''not-an-address'' = Inl ''invalid address''"
  by (simp add: demo_env_def recipient_address_def master_address_def sender_address_def
        new_address_def)

lemma submit_failure_not_validation:
  "submit_failure err \<noteq> ''invalid sender secret key''"
  "submit_failure err \<noteq> ''invalid recipient public key''"
  "submit_failure err \<noteq> ''invalid amount: must be a positive number''"
  by (cases err; simp)+

lemma CreateWallet_clients:
  "ev \<in> set (snd (CreateWallet E cfg)) \<Longrightarrow> event_client ev = HorizonClient cfg"
  by (auto simp: CreateWallet_def split: sum.splits KP.splits)

lemma GetWalletDetails_clients:
  "ev \<in> set (snd (GetWalletDetails E cfg publicKey)) \<Longrightarrow> event_client ev = HorizonClient cfg"
  by (auto simp: GetWalletDetails_def split: sum.splits client_error.splits if_splits)

lemma TransferFunds_clients:
  "ev \<in> set (snd (TransferFunds E cfg req)) \<Longrightarrow> event_client ev = HorizonClient cfg"
  by (auto simp: TransferFunds_def split: sum.splits if_splits)

lemma CreateWallet_submitted:
  assumes "SubmitTransactionCall c stx \<in> set (snd (CreateWallet E cfg))"
  shows "\<exists>kp masterFullKP sourceAccount tx.
           keypair_Random E = Inr kp \<and>
           keypair_Parse E (MasterSecret cfg) = Inr (KPFull masterFullKP) \<and>
           AccountDetail E (HorizonClient cfg) (Address masterFullKP) = Inr sourceAccount \<and>
           CreateWallet_build E cfg (Address kp) (ChangeTrustAssetWrapper (USDCAsset cfg))
             sourceAccount = Inr tx \<and>
           stx = tx\<lparr>tx_Signatures := [Signature (networkPassphrase cfg) masterFullKP,
                                       Signature (networkPassphrase cfg) kp]\<rparr> \<and>
           c = HorizonClient cfg"
  using assms
  apply (auto simp: CreateWallet_def split: sum.splits KP.splits
      dest!: ToChangeTrustAsset_Inr Sign_Inr)
   apply (frule CreateWallet_build_Inr(6), simp)+
  done

lemma TransferFunds_submitted:
  assumes "SubmitTransactionCall c stx \<in> set (snd (TransferFunds E cfg req))"
  shows "\<exists>senderKP sourceAccount tx.
           keypair_ParseFull E (FromSecretKey req) = Inr senderKP \<and>
           AccountDetail E (HorizonClient cfg) (Address senderKP) = Inr sourceAccount \<and>
           TransferFunds_build E cfg req sourceAccount = Inr tx \<and>
           stx = tx\<lparr>tx_Signatures := [Signature (networkPassphrase cfg) senderKP]\<rparr> \<and>
           c = HorizonClient cfg"
  using assms
  apply (auto simp: TransferFunds_def split: sum.splits if_splits dest!: Sign_Inr)
   apply (frule TransferFunds_build_Inr(6), simp)+
  done

lemma passphrases_differ: "TestNetworkPassphrase \<noteq> PublicNetworkPassphrase"
  by (simp add: TestNetworkPassphrase_def PublicNetworkPassphrase_def)

lemma demo_create_build:
  "CreateWallet_build demo_env testnet_config new_address (ChangeTrustAssetWrapper usdc)
      master_account
    = Inr \<lparr>tx_SourceAccount = master_address, tx_Sequence = 42,
           tx_Operations = [CreateAccount new_address ''0.5'',
                            ChangeTrust (ChangeTrustAssetWrapper usdc),
                            Payment new_address ''100'' usdc],
           tx_BaseFee = 100,
           tx_TimeBounds = \<lparr>MinTime = 0, MaxTime = 1700000300\<rparr>,
           tx_Signatures = []\<rparr>"
  by (simp add: service_defs demo_defs demo_keys)

lemma rejected_create:
  "CreateWallet rejecting_env unset_config =
     (Inl ''transaction failed: tx_bad_seq'',
      [AccountDetailCall DefaultPublicNetClient master_address,
       SubmitTransactionCall DefaultPublicNetClient
         \<lparr>tx_SourceAccount = master_address, tx_Sequence = 42,
          tx_Operations = [CreateAccount new_address ''0.5'',
                           ChangeTrust (ChangeTrustAssetWrapper usdc),
                           Payment new_address ''100'' usdc],
          tx_BaseFee = 100,
          tx_TimeBounds = \<lparr>MinTime = 0, MaxTime = 1700000300\<rparr>,
          tx_Signatures = [Signature PublicNetworkPassphrase master_kp,
                           Signature PublicNetworkPassphrase new_kp]\<rparr>])"
  by (simp add: service_defs demo_defs demo_keys)

lemma rejecting_submit:
  "SubmitTransaction rejecting_env c tx
     = Inl (HorizonError 400 ''tx_bad_seq'' ''horizon error: Transaction Failed'')"
  by (simp add: rejecting_env_def)

section \<open>GetWalletDetails\<close>

text \<open>
  Claim C3. For every address whose format is valid (\<open>keypair.ParseAddress\<close> accepts it)
  but whose account lookup reports NotFound (a \<open>*horizonclient.Error\<close> with status 404),
  \<open>GetWalletDetails\<close> returns a result, not an error: the input public address,
  \<open>Exists = false\<close>, an empty list of balances and sequence number 0. For every address
  whose format is invalid it returns the error ``invalid public key format'' (the
  InvalidKey error of the specification) and calls the ledger node not at all.
\<close>

theorem GetWalletDetails_absent_or_malformed:
  "(keypair_ParseAddress E publicKey = Inr a \<and>
    AccountDetail E (HorizonClient cfg) publicKey = Inl (HorizonError StatusNotFound d t)
    \<longrightarrow> GetWalletDetails E cfg publicKey =
          (Inr \<lparr>PublicKey = publicKey, Exists = False, Balances = [], SequenceNumber = 0\<rparr>,
           [AccountDetailCall (HorizonClient cfg) publicKey]))
   \<and> (keypair_ParseAddress E publicKey = Inl err
    \<longrightarrow> GetWalletDetails E cfg publicKey = (Inl ''invalid public key format'', []))"
  by (simp add: GetWalletDetails_def)

theorem GetWalletDetails_absent_or_malformed_witness:
  "keypair_ParseAddress demo_env recipient_address = Inr recipient_address
   \<and> AccountDetail demo_env (HorizonClient unset_config) recipient_address
       = Inl (HorizonError StatusNotFound ''Resource Missing'' ''horizon error: Resource Missing'')
   \<and> GetWalletDetails demo_env unset_config recipient_address =
       (Inr \<lparr>PublicKey = recipient_address, Exists = False, Balances = [],
             SequenceNumber = 0\<rparr>,
        [AccountDetailCall DefaultPublicNetClient recipient_address])
   \<and> keypair_ParseAddress demo_env ''not-an-address'' = Inl ''invalid address''
   \<and> GetWalletDetails demo_env unset_config ''not-an-address''
       = (Inl ''invalid public key format'', [])"
  using GetWalletDetails_absent_or_malformed
          [of demo_env recipient_address recipient_address unset_config
              "''Resource Missing''" "''horizon error: Resource Missing''" "''invalid address''"]
        GetWalletDetails_absent_or_malformed
          [of demo_env "''not-an-address''" recipient_address unset_config
              "''Resource Missing''" "''horizon error: Resource Missing''" "''invalid address''"]
        demo_parse_recipient demo_recipient_absent demo_parse_garbage
  by (simp add: unset_config_def main_config_def)

text \<open>
  Claim C6. For every existing account (an address that \<open>keypair.ParseAddress\<close> accepts
  and for which \<open>AccountDetail\<close> returns an account), \<open>GetWalletDetails\<close> returns the
  input public address, \<open>Exists = true\<close>, the account's sequence number, and one balance
  entry per balance of the fetched account, in the same order, each holding the asset
  type, asset code, issuer and balance string of that balance unchanged.
\<close>

theorem GetWalletDetails_existing:
  assumes "keypair_ParseAddress E publicKey = Inr a"
      and "AccountDetail E (HorizonClient cfg) publicKey = Inr account"
  shows "GetWalletDetails E cfg publicKey =
           (Inr \<lparr>PublicKey = publicKey, Exists = True,
                 Balances = map to_entry (acc_Balances account),
                 SequenceNumber = Sequence account\<rparr>,
            [AccountDetailCall (HorizonClient cfg) publicKey])
       \<and> (\<forall>r. fst (GetWalletDetails E cfg publicKey) = Inr r \<longrightarrow>
            length (Balances r) = length (acc_Balances account) \<and>
            (\<forall>i < length (acc_Balances account).
               AssetType (Balances r ! i) = bal_Type (acc_Balances account ! i) \<and>
               AssetCode (Balances r ! i) = bal_Code (acc_Balances account ! i) \<and>
               Issuer (Balances r ! i) = bal_Issuer (acc_Balances account ! i) \<and>
               Balance (Balances r ! i) = bal_Balance (acc_Balances account ! i)))"
  using assms by (auto simp: GetWalletDetails_def append_balances_map to_entry_def)

theorem GetWalletDetails_existing_witness:
  "keypair_ParseAddress demo_env master_address = Inr master_address
   \<and> AccountDetail demo_env (HorizonClient unset_config) master_address = Inr master_account
   \<and> GetWalletDetails demo_env unset_config master_address =
       (Inr \<lparr>PublicKey = master_address, Exists = True,
             Balances = [\<lparr>AssetType = ''credit_alphanum4'', AssetCode = ''USDC'',
                          Issuer = ''GA5ZSEJYB37JRC5AVCIA5MOP4RHTM335X2KGX3IHOJAPP5RE34KPPVPQS'',
                          Balance = ''500.0000000''\<rparr>,
                         \<lparr>AssetType = ''native'', AssetCode = '''', Issuer = '''',
                          Balance = ''1000.0000000''\<rparr>],
             SequenceNumber = 41\<rparr>,
        [AccountDetailCall DefaultPublicNetClient master_address])"
proof -
  have p: "keypair_ParseAddress demo_env master_address = Inr master_address"
    by (simp add: demo_env_def)
  have f: "AccountDetail demo_env (HorizonClient unset_config) master_address
             = Inr master_account"
    by (simp add: demo_env_def)
  show ?thesis
    using GetWalletDetails_existing [OF p f] p f
    by (simp add: master_account_def to_entry_def usdc_balance_def native_balance_def
        usdc_def unset_config_def main_config_def)
qed

section \<open>CreateWallet\<close>

text \<open>
  Claim C1. Every successful execution of \<open>CreateWallet\<close> has generated a fresh Full
  keypair, parsed the master secret as a Full keypair, fetched the master account,
  built one envelope whose operations are exactly \<open>CreateAccount\<close> (new address,
  starting balance ``0.5''), \<open>ChangeTrust\<close> (the designated USDC asset) and \<open>Payment\<close>
  (new address, ``100'', the USDC asset) in this order, signed it with the master
  keypair and the new keypair, submitted it, and returns the new public address, its
  secret key and a message that ends with the hash of the submitted transaction.
\<close>

theorem CreateWallet_success:
  assumes "CreateWallet E cfg = (Inr resp, calls)"
  shows "\<exists>kp masterFullKP sourceAccount tx signedTx txresp.
    keypair_Random E = Inr kp \<and>
    keypair_Parse E (MasterSecret cfg) = Inr (KPFull masterFullKP) \<and>
    AccountDetail E (HorizonClient cfg) (Address masterFullKP) = Inr sourceAccount \<and>
    CreateWallet_build E cfg (Address kp) (ChangeTrustAssetWrapper (USDCAsset cfg)) sourceAccount
      = Inr tx \<and>
    tx_Operations tx = [CreateAccount (Address kp) ''0.5'',
                        ChangeTrust (ChangeTrustAssetWrapper (USDCAsset cfg)),
                        Payment (Address kp) ''100'' (USDCAsset cfg)] \<and>
    Sign E (networkPassphrase cfg) [masterFullKP, kp] tx = Inr signedTx \<and>
    tx_Operations signedTx = tx_Operations tx \<and>
    tx_Signatures signedTx = [Signature (networkPassphrase cfg) masterFullKP,
                              Signature (networkPassphrase cfg) kp] \<and>
    SubmitTransaction E (HorizonClient cfg) signedTx = Inr txresp \<and>
    calls = [AccountDetailCall (HorizonClient cfg) (Address masterFullKP),
             SubmitTransactionCall (HorizonClient cfg) signedTx] \<and>
    resp = \<lparr>WalletResponse.PublicKey = Address kp, WalletResponse.SecretKey = Seed kp,
            WalletResponse.Message =
              ''Wallet created, trusted USDC, and funded successfully. Hash: '' @ Hash txresp\<rparr>"
proof -
  from assms obtain kp where kp: "keypair_Random E = Inr kp"
    by (auto simp: CreateWallet_def split: sum.splits)
  from assms kp obtain masterKP where m: "keypair_Parse E (MasterSecret cfg) = Inr masterKP"
    by (auto simp: CreateWallet_def split: sum.splits)
  from assms kp m obtain line where l: "ToChangeTrustAsset E (USDCAsset cfg) = Inr line"
    by (auto simp: CreateWallet_def split: sum.splits)
  have line: "line = ChangeTrustAssetWrapper (USDCAsset cfg)"
    using l by (rule ToChangeTrustAsset_Inr)
  from assms kp m l obtain sourceAccount where
    a: "AccountDetail E (HorizonClient cfg) (KP_Address masterKP) = Inr sourceAccount"
    by (auto simp: CreateWallet_def split: sum.splits)
  from assms kp m l a obtain tx where
    b: "CreateWallet_build E cfg (Address kp) line sourceAccount = Inr tx"
    by (auto simp: CreateWallet_def split: sum.splits)
  from assms kp m l a b obtain masterFullKP where f: "masterKP = KPFull masterFullKP"
    by (auto simp: CreateWallet_def split: sum.splits KP.splits)
  from assms kp m l a b f obtain signedTx where
    s: "Sign E (networkPassphrase cfg) [masterFullKP, kp] tx = Inr signedTx"
    by (auto simp: CreateWallet_def split: sum.splits)
  from assms kp m l a b f s obtain txresp where
    r: "SubmitTransaction E (HorizonClient cfg) signedTx = Inr txresp"
    by (auto simp: CreateWallet_def split: sum.splits)
  have res: "CreateWallet E cfg =
      (Inr \<lparr>WalletResponse.PublicKey = Address kp, WalletResponse.SecretKey = Seed kp,
            WalletResponse.Message =
              ''Wallet created, trusted USDC, and funded successfully. Hash: '' @ Hash txresp\<rparr>,
       [AccountDetailCall (HorizonClient cfg) (Address masterFullKP),
        SubmitTransactionCall (HorizonClient cfg) signedTx])"
    using kp m l a b f s r by (simp add: CreateWallet_def)
  have ops: "tx_Operations tx = [CreateAccount (Address kp) ''0.5'', ChangeTrust line,
                                 Payment (Address kp) ''100'' (USDCAsset cfg)]"
    and sigs0: "tx_Signatures tx = []"
    using CreateWallet_build_Inr [OF b] by simp_all
  have st: "signedTx = tx\<lparr>tx_Signatures := tx_Signatures tx
              @ map (Signature (networkPassphrase cfg)) [masterFullKP, kp]\<rparr>"
    using s by (rule Sign_Inr)
  show ?thesis
    using kp m a b f s r res assms ops sigs0 line st by auto
qed

theorem CreateWallet_success_witness:
  "CreateWallet demo_env testnet_config =
     (Inr \<lparr>WalletResponse.PublicKey = new_address, WalletResponse.SecretKey = new_seed,
           WalletResponse.Message = ''Wallet created, trusted USDC, and funded successfully. Hash: 3389e9f0f1a65f19736cacf544c2e825313e8447f569233bb8db39aa607c8889''\<rparr>,
      [AccountDetailCall DefaultTestNetClient master_address,
       SubmitTransactionCall DefaultTestNetClient
         \<lparr>tx_SourceAccount = master_address, tx_Sequence = 42,
          tx_Operations = [CreateAccount new_address ''0.5'',
                           ChangeTrust (ChangeTrustAssetWrapper usdc),
                           Payment new_address ''100'' usdc],
          tx_BaseFee = 100,
          tx_TimeBounds = \<lparr>MinTime = 0, MaxTime = 1700000300\<rparr>,
          tx_Signatures = [Signature TestNetworkPassphrase master_kp,
                           Signature TestNetworkPassphrase new_kp]\<rparr>])
   \<and> keypair_Random demo_env = Inr new_kp
   \<and> keypair_Parse demo_env (MasterSecret testnet_config) = Inr (KPFull master_kp)
   \<and> AccountDetail demo_env DefaultTestNetClient master_address = Inr master_account"
proof -
  have ev: "CreateWallet demo_env testnet_config =
     (Inr \<lparr>WalletResponse.PublicKey = new_address, WalletResponse.SecretKey = new_seed,
           WalletResponse.Message = ''Wallet created, trusted USDC, and funded successfully. Hash: 3389e9f0f1a65f19736cacf544c2e825313e8447f569233bb8db39aa607c8889''\<rparr>,
      [AccountDetailCall DefaultTestNetClient master_address,
       SubmitTransactionCall DefaultTestNetClient
         \<lparr>tx_SourceAccount = master_address, tx_Sequence = 42,
          tx_Operations = [CreateAccount new_address ''0.5'',
                           ChangeTrust (ChangeTrustAssetWrapper usdc),
                           Payment new_address ''100'' usdc],
          tx_BaseFee = 100,
          tx_TimeBounds = \<lparr>MinTime = 0, MaxTime = 1700000300\<rparr>,
          tx_Signatures = [Signature TestNetworkPassphrase master_kp,
                           Signature TestNetworkPassphrase new_kp]\<rparr>])"
    by (simp add: service_defs demo_defs demo_keys)
  from CreateWallet_success [OF ev]
  have "keypair_Random demo_env = Inr new_kp
      \<and> keypair_Parse demo_env (MasterSecret testnet_config) = Inr (KPFull master_kp)
      \<and> AccountDetail demo_env DefaultTestNetClient master_address = Inr master_account"
    by (auto simp: demo_defs demo_keys split: if_splits)
  with ev show ?thesis by simp
qed

section \<open>TransferFunds: validation\<close>

text \<open>
  Claim C2 says that a recipient that does not parse gives the InvalidAddress error, and
  an amount such as ``abc'' the InvalidAmount error, for every request. The checks
  are made one after the other and the first failure returns: with a sender secret that
  does not parse as well, the error is ``invalid sender secret key''.
\<close>

theorem TransferFunds_recipient_counterexample:
  "keypair_ParseFull demo_env ''not-a-secret'' = Inl ''invalid seed''
   \<and> keypair_ParseAddress demo_env ''not-an-address'' = Inl ''invalid address''
   \<and> TransferFunds demo_env unset_config
        \<lparr>FromSecretKey = ''not-a-secret'', ToPublicKey = ''not-an-address'', Amount = ''10''\<rparr>
      = (Inl ''invalid sender secret key'', [])
   \<and> fst (TransferFunds demo_env unset_config
        \<lparr>FromSecretKey = ''not-a-secret'', ToPublicKey = ''not-an-address'', Amount = ''10''\<rparr>)
      \<noteq> Inl ''invalid recipient public key''"
  by (simp add: service_defs demo_defs demo_keys)

text \<open>
  Claim C2, amended. \<open>TransferFunds\<close> validates its three inputs before any call of the
  ledger node: a sender secret that does not parse as a Full keypair gives ``invalid
  sender secret key'' (InvalidKey); when the secret parses, a recipient that does not
  parse as an address gives ``invalid recipient public key'' (InvalidAddress); when
  both parse, an amount for which \<open>strconv.ParseFloat\<close> fails or gives a value \<open>\<le> 0\<close>,
  such as ``0'', ``-5'' or ``abc'', gives ``invalid amount: must be a positive
  number'' (InvalidAmount). In each of these cases no account is fetched and no
  transaction is submitted; a call is made only after all three checks have passed.
\<close>

theorem TransferFunds_validation:
  "(keypair_ParseFull E (FromSecretKey req) = Inl e1 \<longrightarrow>
      TransferFunds E cfg req = (Inl ''invalid sender secret key'', []))
   \<and> (keypair_ParseFull E (FromSecretKey req) = Inr senderKP \<and>
      keypair_ParseAddress E (ToPublicKey req) = Inl e2 \<longrightarrow>
      TransferFunds E cfg req = (Inl ''invalid recipient public key'', []))
   \<and> (keypair_ParseFull E (FromSecretKey req) = Inr senderKP \<and>
      keypair_ParseAddress E (ToPublicKey req) = Inr a \<and>
      (strconv_ParseFloat E (Amount req) = Inl e3 \<or>
       (\<exists>f. strconv_ParseFloat E (Amount req) = Inr f \<and> float64_le_zero f)) \<longrightarrow>
      TransferFunds E cfg req = (Inl ''invalid amount: must be a positive number'', []))
   \<and> (keypair_ParseFull E (FromSecretKey req) = Inr senderKP \<and>
      keypair_ParseAddress E (ToPublicKey req) = Inr a \<and>
      strconv_ParseFloat E ''0'' = Inr (Finite 0) \<and>
      strconv_ParseFloat E ''-5'' = Inr (Finite (- 5)) \<and>
      strconv_ParseFloat E ''abc'' = Inl e3 \<and>
      (Amount req = ''0'' \<or> Amount req = ''-5'' \<or> Amount req = ''abc'') \<longrightarrow>
      TransferFunds E cfg req = (Inl ''invalid amount: must be a positive number'', []))
   \<and> (snd (TransferFunds E cfg req) \<noteq> [] \<longrightarrow>
      (\<exists>kp. keypair_ParseFull E (FromSecretKey req) = Inr kp) \<and>
      (\<exists>to. keypair_ParseAddress E (ToPublicKey req) = Inr to) \<and>
      (\<exists>f. strconv_ParseFloat E (Amount req) = Inr f \<and> \<not> float64_le_zero f))"
  by (auto simp: TransferFunds_def amount_rejected_def split: sum.splits)

theorem TransferFunds_validation_witness:
  "keypair_ParseFull demo_env sender_seed = Inr sender_kp
   \<and> keypair_ParseAddress demo_env recipient_address = Inr recipient_address
   \<and> keypair_ParseAddress demo_env ''not-an-address'' = Inl ''invalid address''
   \<and> strconv_ParseFloat demo_env ''0'' = Inr (Finite 0)
   \<and> strconv_ParseFloat demo_env ''-5'' = Inr (Finite (- 5))
   \<and> strconv_ParseFloat demo_env ''abc'' = Inl ''invalid syntax''
   \<and> TransferFunds demo_env unset_config
        \<lparr>FromSecretKey = ''not-a-secret'', ToPublicKey = recipient_address, Amount = ''10''\<rparr>
      = (Inl ''invalid sender secret key'', [])
   \<and> TransferFunds demo_env unset_config
        \<lparr>FromSecretKey = sender_seed, ToPublicKey = ''not-an-address'', Amount = ''10''\<rparr>
      = (Inl ''invalid recipient public key'', [])
   \<and> TransferFunds demo_env unset_config
        \<lparr>FromSecretKey = sender_seed, ToPublicKey = recipient_address, Amount = ''0''\<rparr>
      = (Inl ''invalid amount: must be a positive number'', [])
   \<and> TransferFunds demo_env unset_config
        \<lparr>FromSecretKey = sender_seed, ToPublicKey = recipient_address, Amount = ''-5''\<rparr>
      = (Inl ''invalid amount: must be a positive number'', [])
   \<and> TransferFunds demo_env unset_config
        \<lparr>FromSecretKey = sender_seed, ToPublicKey = recipient_address, Amount = ''abc''\<rparr>
      = (Inl ''invalid amount: must be a positive number'', [])"
proof -
  have k: "keypair_ParseFull demo_env sender_seed = Inr sender_kp"
    and k': "keypair_ParseFull demo_env ''not-a-secret'' = Inl ''invalid seed''"
    and r: "keypair_ParseAddress demo_env recipient_address = Inr recipient_address"
    and r': "keypair_ParseAddress demo_env ''not-an-address'' = Inl ''invalid address''"
    and f: "strconv_ParseFloat demo_env ''0'' = Inr (Finite 0)"
           "strconv_ParseFloat demo_env ''-5'' = Inr (Finite (- 5))"
           "strconv_ParseFloat demo_env ''abc'' = Inl ''invalid syntax''"
    by (simp_all add: demo_defs demo_keys)
  show ?thesis
    using k k' r r' f
      TransferFunds_validation
        [of demo_env "\<lparr>FromSecretKey = ''not-a-secret'', ToPublicKey = recipient_address,
                        Amount = ''10''\<rparr>" "''invalid seed''" unset_config]
      TransferFunds_validation
        [of demo_env "\<lparr>FromSecretKey = sender_seed, ToPublicKey = ''not-an-address'',
                        Amount = ''10''\<rparr>" _ unset_config sender_kp "''invalid address''"]
      TransferFunds_validation
        [of demo_env "\<lparr>FromSecretKey = sender_seed, ToPublicKey = recipient_address,
                        Amount = ''0''\<rparr>" _ unset_config sender_kp _ recipient_address
            "''invalid syntax''"]
      TransferFunds_validation
        [of demo_env "\<lparr>FromSecretKey = sender_seed, ToPublicKey = recipient_address,
                        Amount = ''-5''\<rparr>" _ unset_config sender_kp _ recipient_address
            "''invalid syntax''"]
      TransferFunds_validation
        [of demo_env "\<lparr>FromSecretKey = sender_seed, ToPublicKey = recipient_address,
                        Amount = ''abc''\<rparr>" _ unset_config sender_kp _ recipient_address
            "''invalid syntax''"]
    by simp
qed

text \<open>
  Claim C10. \<open>TransferFunds\<close> checks the sender secret, then the recipient address,
  then the amount, and stops at the first check that fails: for every request with an
  invalid field, the returned error is the one of the first invalid field in that
  order, whatever the later fields are. A request with a malformed secret and a
  malformed amount returns ``invalid sender secret key'', not the amount error.
\<close>

theorem TransferFunds_first_invalid_field:
  "(invalid_fields E req \<noteq> [] \<longrightarrow>
      TransferFunds E cfg req = (Inl (hd (invalid_fields E req)), []))
   \<and> (isl (keypair_ParseFull E (FromSecretKey req)) \<longrightarrow>
      fst (TransferFunds E cfg req) = Inl ''invalid sender secret key'')
   \<and> (\<not> isl (keypair_ParseFull E (FromSecretKey req)) \<and>
      isl (keypair_ParseAddress E (ToPublicKey req)) \<longrightarrow>
      fst (TransferFunds E cfg req) = Inl ''invalid recipient public key'')
   \<and> (\<not> isl (keypair_ParseFull E (FromSecretKey req)) \<and>
      \<not> isl (keypair_ParseAddress E (ToPublicKey req)) \<and>
      amount_rejected E (Amount req) \<longrightarrow>
      fst (TransferFunds E cfg req) = Inl ''invalid amount: must be a positive number'')
   \<and> (invalid_fields E req = [] \<longrightarrow>
      fst (TransferFunds E cfg req) \<noteq> Inl ''invalid sender secret key'' \<and>
      fst (TransferFunds E cfg req) \<noteq> Inl ''invalid recipient public key'' \<and>
      fst (TransferFunds E cfg req) \<noteq> Inl ''invalid amount: must be a positive number'')"
  by (auto simp: TransferFunds_def invalid_fields_def submit_failure_not_validation split: sum.splits)

theorem TransferFunds_first_invalid_field_witness:
  "invalid_fields demo_env
      \<lparr>FromSecretKey = ''not-a-secret'', ToPublicKey = recipient_address, Amount = ''abc''\<rparr>
     = [''invalid sender secret key'', ''invalid amount: must be a positive number'']
   \<and> TransferFunds demo_env unset_config
      \<lparr>FromSecretKey = ''not-a-secret'', ToPublicKey = recipient_address, Amount = ''abc''\<rparr>
     = (Inl ''invalid sender secret key'', [])
   \<and> invalid_fields demo_env
      \<lparr>FromSecretKey = sender_seed, ToPublicKey = ''not-an-address'', Amount = ''-5''\<rparr>
     = [''invalid recipient public key'', ''invalid amount: must be a positive number'']
   \<and> TransferFunds demo_env unset_config
      \<lparr>FromSecretKey = sender_seed, ToPublicKey = ''not-an-address'', Amount = ''-5''\<rparr>
     = (Inl ''invalid recipient public key'', [])"
proof -
  have i1: "invalid_fields demo_env
      \<lparr>FromSecretKey = ''not-a-secret'', ToPublicKey = recipient_address, Amount = ''abc''\<rparr>
     = [''invalid sender secret key'', ''invalid amount: must be a positive number'']"
    by (simp add: invalid_fields_def amount_rejected_def demo_defs demo_keys)
  have i2: "invalid_fields demo_env
      \<lparr>FromSecretKey = sender_seed, ToPublicKey = ''not-an-address'', Amount = ''-5''\<rparr>
     = [''invalid recipient public key'', ''invalid amount: must be a positive number'']"
    by (simp add: invalid_fields_def amount_rejected_def demo_defs demo_keys)
  show ?thesis
    using i1 i2
      TransferFunds_first_invalid_field
        [of demo_env "\<lparr>FromSecretKey = ''not-a-secret'', ToPublicKey = recipient_address,
                        Amount = ''abc''\<rparr>" unset_config]
      TransferFunds_first_invalid_field
        [of demo_env "\<lparr>FromSecretKey = sender_seed, ToPublicKey = ''not-an-address'',
                        Amount = ''-5''\<rparr>" unset_config]
    by simp
qed

section \<open>TransferFunds: the amount check\<close>

text \<open>
  Claim C9 says that \<open>TransferFunds\<close> raises InvalidAmount if and only if
  \<open>strconv.ParseFloat\<close> fails on the amount or the parsed value is \<open>\<le> 0\<close>, and that
  ``NaN'' and ``+Inf'' pass the validation and are forwarded to the account fetch and
  to the submission. Two things fail. The amount is looked at only when the sender
  secret and the recipient address have parsed: with a malformed secret and the amount
  ``abc'', on which \<open>ParseFloat\<close> fails, the error is ``invalid sender secret key''.
  And between the account fetch and the submission stands the transaction builder:
  when it refuses the payment of ``NaN'' or of ``+Inf'', the account has been fetched
  but nothing is submitted.
\<close>

theorem TransferFunds_amount_counterexample:
  "keypair_ParseFull demo_env ''not-a-secret'' = Inl ''invalid seed''
   \<and> strconv_ParseFloat demo_env ''abc'' = Inl ''invalid syntax''
   \<and> TransferFunds demo_env unset_config
        \<lparr>FromSecretKey = ''not-a-secret'', ToPublicKey = recipient_address, Amount = ''abc''\<rparr>
      = (Inl ''invalid sender secret key'', [])
   \<and> fst (TransferFunds demo_env unset_config
        \<lparr>FromSecretKey = ''not-a-secret'', ToPublicKey = recipient_address, Amount = ''abc''\<rparr>)
      \<noteq> Inl ''invalid amount: must be a positive number''
   \<and> keypair_ParseFull validating_env sender_seed = Inr sender_kp
   \<and> keypair_ParseAddress validating_env recipient_address = Inr recipient_address
   \<and> strconv_ParseFloat validating_env ''NaN'' = Inr NaN
   \<and> strconv_ParseFloat validating_env ''+Inf'' = Inr PosInf
   \<and> TransferFunds validating_env unset_config
        \<lparr>FromSecretKey = sender_seed, ToPublicKey = recipient_address, Amount = ''NaN''\<rparr>
      = (Inl ''failed to build transaction: invalid amount format'',
         [AccountDetailCall DefaultPublicNetClient sender_address])
   \<and> TransferFunds validating_env unset_config
        \<lparr>FromSecretKey = sender_seed, ToPublicKey = recipient_address, Amount = ''+Inf''\<rparr>
      = (Inl ''failed to build transaction: invalid amount format'',
         [AccountDetailCall DefaultPublicNetClient sender_address])"
  by (simp add: service_defs demo_defs demo_keys)

text \<open>
  Claim C9, amended. When the sender secret and the recipient address parse,
  \<open>TransferFunds\<close> raises InvalidAmount if and only if \<open>strconv.ParseFloat\<close> fails on
  the amount string or the parsed value is \<open>\<le> 0\<close>. Consequently there are amount
  strings that are no positive decimals, such as ``NaN'' (both comparisons of NaN
  with 0 are false) and ``+Inf'', that pass the validation. Every amount that passes,
  these included, is forwarded verbatim: the account of the sender is fetched, the
  string is the amount of the one payment handed to the transaction builder, and when
  the builder and the signing accept the envelope it is submitted with that amount;
  when the fetch fails, or the builder or the signing refuses, that error is returned
  and nothing is submitted.
\<close>

theorem TransferFunds_amount_check:
  assumes "keypair_ParseFull E (FromSecretKey req) = Inr senderKP"
      and "keypair_ParseAddress E (ToPublicKey req) = Inr a"
  shows "(fst (TransferFunds E cfg req) = Inl ''invalid amount: must be a positive number''
          \<longleftrightarrow> (\<exists>err. strconv_ParseFloat E (Amount req) = Inl err)
               \<or> (\<exists>f. strconv_ParseFloat E (Amount req) = Inr f \<and> float64_le_zero f))
       \<and> (strconv_ParseFloat E (Amount req) = Inr NaN
            \<or> strconv_ParseFloat E (Amount req) = Inr PosInf
            \<or> \<not> amount_rejected E (Amount req) \<longrightarrow>
          fst (TransferFunds E cfg req) \<noteq> Inl ''invalid amount: must be a positive number''
          \<and> snd (TransferFunds E cfg req) \<noteq> []
          \<and> hd (snd (TransferFunds E cfg req))
              = AccountDetailCall (HorizonClient cfg) (Address senderKP)
          \<and> (\<forall>err.
                AccountDetail E (HorizonClient cfg) (Address senderKP) = Inl err \<longrightarrow>
                TransferFunds E cfg req =
                  (Inl (''failed to fetch sender account details: '' @ Error err),
                   [AccountDetailCall (HorizonClient cfg) (Address senderKP)]))
          \<and> (\<forall>sourceAccount err.
                AccountDetail E (HorizonClient cfg) (Address senderKP) = Inr sourceAccount \<and>
                operation_error E (Payment (ToPublicKey req) (Amount req) (USDCAsset cfg))
                  = Some err \<longrightarrow>
                TransferFunds E cfg req =
                  (Inl (''failed to build transaction: '' @ err),
                   [AccountDetailCall (HorizonClient cfg) (Address senderKP)]))
          \<and> (\<forall>sourceAccount err.
                AccountDetail E (HorizonClient cfg) (Address senderKP) = Inr sourceAccount \<and>
                operation_error E (Payment (ToPublicKey req) (Amount req) (USDCAsset cfg))
                  = None \<and>
                sign_error E (networkPassphrase cfg) [senderKP]
                  \<lparr>tx_SourceAccount = AccountID sourceAccount,
                   tx_Sequence = Sequence sourceAccount + 1,
                   tx_Operations = [Payment (ToPublicKey req) (Amount req) (USDCAsset cfg)],
                   tx_BaseFee = MinBaseFee,
                   tx_TimeBounds = NewTimeout E 300,
                   tx_Signatures = []\<rparr> = Some err \<longrightarrow>
                TransferFunds E cfg req =
                  (Inl (''failed to sign transaction: '' @ err),
                   [AccountDetailCall (HorizonClient cfg) (Address senderKP)]))
          \<and> (\<forall>sourceAccount.
                AccountDetail E (HorizonClient cfg) (Address senderKP) = Inr sourceAccount \<and>
                operation_error E (Payment (ToPublicKey req) (Amount req) (USDCAsset cfg))
                  = None \<and>
                sign_error E (networkPassphrase cfg) [senderKP]
                  \<lparr>tx_SourceAccount = AccountID sourceAccount,
                   tx_Sequence = Sequence sourceAccount + 1,
                   tx_Operations = [Payment (ToPublicKey req) (Amount req) (USDCAsset cfg)],
                   tx_BaseFee = MinBaseFee,
                   tx_TimeBounds = NewTimeout E 300,
                   tx_Signatures = []\<rparr> = None \<longrightarrow>
                snd (TransferFunds E cfg req) =
                  [AccountDetailCall (HorizonClient cfg) (Address senderKP),
                   SubmitTransactionCall (HorizonClient cfg)
                     \<lparr>tx_SourceAccount = AccountID sourceAccount,
                      tx_Sequence = Sequence sourceAccount + 1,
                      tx_Operations = [Payment (ToPublicKey req) (Amount req) (USDCAsset cfg)],
                      tx_BaseFee = MinBaseFee,
                      tx_TimeBounds = NewTimeout E 300,
                      tx_Signatures = [Signature (networkPassphrase cfg) senderKP]\<rparr>]
                \<and> fst (TransferFunds E cfg req) =
                  (case SubmitTransaction E (HorizonClient cfg)
                     \<lparr>tx_SourceAccount = AccountID sourceAccount,
                      tx_Sequence = Sequence sourceAccount + 1,
                      tx_Operations = [Payment (ToPublicKey req) (Amount req) (USDCAsset cfg)],
                      tx_BaseFee = MinBaseFee,
                      tx_TimeBounds = NewTimeout E 300,
                      tx_Signatures = [Signature (networkPassphrase cfg) senderKP]\<rparr> of
                     Inl err \<Rightarrow> Inl (submit_failure err)
                   | Inr resp \<Rightarrow>
                       Inr \<lparr>TransferResponse.TransactionHash = Hash resp,
                            TransferResponse.Message = ''USDC transferred successfully''\<rparr>)))"
proof -
  have iff: "fst (TransferFunds E cfg req) = Inl ''invalid amount: must be a positive number''
          \<longleftrightarrow> (\<exists>err. strconv_ParseFloat E (Amount req) = Inl err)
               \<or> (\<exists>f. strconv_ParseFloat E (Amount req) = Inr f \<and> float64_le_zero f)"
    using assms
    by (auto simp: TransferFunds_def amount_rejected_def submit_failure_not_validation
        split: sum.splits)
  have pass: "\<not> amount_rejected E (Amount req)"
    if "strconv_ParseFloat E (Amount req) = Inr NaN
          \<or> strconv_ParseFloat E (Amount req) = Inr PosInf
          \<or> \<not> amount_rejected E (Amount req)"
    using that by (auto simp: amount_rejected_def)
  have not_invalid:
    "fst (TransferFunds E cfg req) \<noteq> Inl ''invalid amount: must be a positive number''"
    if "\<not> amount_rejected E (Amount req)"
    using that iff by (auto simp: amount_rejected_def split: sum.splits)
  have fetch: "snd (TransferFunds E cfg req) \<noteq> []
      \<and> hd (snd (TransferFunds E cfg req))
           = AccountDetailCall (HorizonClient cfg) (Address senderKP)"
    if "\<not> amount_rejected E (Amount req)"
    using that assms by (auto simp: TransferFunds_def split: sum.splits)
  have fetch_fails: "TransferFunds E cfg req =
        (Inl (''failed to fetch sender account details: '' @ Error err),
         [AccountDetailCall (HorizonClient cfg) (Address senderKP)])"
    if "\<not> amount_rejected E (Amount req)"
       "AccountDetail E (HorizonClient cfg) (Address senderKP) = Inl err" for err
    using that assms by (simp add: TransferFunds_def)
  have build_fails: "TransferFunds E cfg req =
        (Inl (''failed to build transaction: '' @ err),
         [AccountDetailCall (HorizonClient cfg) (Address senderKP)])"
    if "\<not> amount_rejected E (Amount req)"
       "AccountDetail E (HorizonClient cfg) (Address senderKP) = Inr sourceAccount"
       "operation_error E (Payment (ToPublicKey req) (Amount req) (USDCAsset cfg)) = Some err"
    for sourceAccount err
    using that assms
    by (simp add: TransferFunds_def TransferFunds_build_def NewTransaction_def)
  have built: "TransferFunds_build E cfg req sourceAccount =
        Inr \<lparr>tx_SourceAccount = AccountID sourceAccount,
             tx_Sequence = Sequence sourceAccount + 1,
             tx_Operations = [Payment (ToPublicKey req) (Amount req) (USDCAsset cfg)],
             tx_BaseFee = MinBaseFee,
             tx_TimeBounds = NewTimeout E 300,
             tx_Signatures = []\<rparr>"
    if "operation_error E (Payment (ToPublicKey req) (Amount req) (USDCAsset cfg)) = None"
    for sourceAccount
    using that by (simp add: TransferFunds_build_def NewTransaction_def)
  have sign_fails: "TransferFunds E cfg req =
        (Inl (''failed to sign transaction: '' @ err),
         [AccountDetailCall (HorizonClient cfg) (Address senderKP)])"
    if "\<not> amount_rejected E (Amount req)"
       "AccountDetail E (HorizonClient cfg) (Address senderKP) = Inr sourceAccount"
       "operation_error E (Payment (ToPublicKey req) (Amount req) (USDCAsset cfg)) = None"
       "sign_error E (networkPassphrase cfg) [senderKP]
          \<lparr>tx_SourceAccount = AccountID sourceAccount,
           tx_Sequence = Sequence sourceAccount + 1,
           tx_Operations = [Payment (ToPublicKey req) (Amount req) (USDCAsset cfg)],
           tx_BaseFee = MinBaseFee,
           tx_TimeBounds = NewTimeout E 300,
           tx_Signatures = []\<rparr> = Some err"
    for sourceAccount err
    using that assms built [OF that(3)]
    by (simp add: TransferFunds_def Sign_def)
  have submitted: "snd (TransferFunds E cfg req) =
        [AccountDetailCall (HorizonClient cfg) (Address senderKP),
         SubmitTransactionCall (HorizonClient cfg)
           \<lparr>tx_SourceAccount = AccountID sourceAccount,
            tx_Sequence = Sequence sourceAccount + 1,
            tx_Operations = [Payment (ToPublicKey req) (Amount req) (USDCAsset cfg)],
            tx_BaseFee = MinBaseFee,
            tx_TimeBounds = NewTimeout E 300,
            tx_Signatures = [Signature (networkPassphrase cfg) senderKP]\<rparr>]
      \<and> fst (TransferFunds E cfg req) =
        (case SubmitTransaction E (HorizonClient cfg)
           \<lparr>tx_SourceAccount = AccountID sourceAccount,
            tx_Sequence = Sequence sourceAccount + 1,
            tx_Operations = [Payment (ToPublicKey req) (Amount req) (USDCAsset cfg)],
            tx_BaseFee = MinBaseFee,
            tx_TimeBounds = NewTimeout E 300,
            tx_Signatures = [Signature (networkPassphrase cfg) senderKP]\<rparr> of
           Inl err \<Rightarrow> Inl (submit_failure err)
         | Inr resp \<Rightarrow>
             Inr \<lparr>TransferResponse.TransactionHash = Hash resp,
                  TransferResponse.Message = ''USDC transferred successfully''\<rparr>)"
    if "\<not> amount_rejected E (Amount req)"
       "AccountDetail E (HorizonClient cfg) (Address senderKP) = Inr sourceAccount"
       "operation_error E (Payment (ToPublicKey req) (Amount req) (USDCAsset cfg)) = None"
       "sign_error E (networkPassphrase cfg) [senderKP]
          \<lparr>tx_SourceAccount = AccountID sourceAccount,
           tx_Sequence = Sequence sourceAccount + 1,
           tx_Operations = [Payment (ToPublicKey req) (Amount req) (USDCAsset cfg)],
           tx_BaseFee = MinBaseFee,
           tx_TimeBounds = NewTimeout E 300,
           tx_Signatures = []\<rparr> = None"
    for sourceAccount
    using that assms built [OF that(3)]
    by (simp add: TransferFunds_def Sign_def split: sum.splits)
  show ?thesis
    using iff pass not_invalid fetch fetch_fails build_fails sign_fails submitted
    by blast
qed

theorem TransferFunds_amount_check_witness:
  "keypair_ParseFull validating_env sender_seed = Inr sender_kp
   \<and> keypair_ParseAddress validating_env recipient_address = Inr recipient_address
   \<and> strconv_ParseFloat validating_env ''NaN'' = Inr NaN
   \<and> AccountDetail validating_env (HorizonClient unset_config) (Address sender_kp)
       = Inr sender_account
   \<and> operation_error validating_env (Payment recipient_address ''NaN'' (USDCAsset unset_config))
       = Some ''invalid amount format''
   \<and> TransferFunds validating_env unset_config
        \<lparr>FromSecretKey = sender_seed, ToPublicKey = recipient_address, Amount = ''NaN''\<rparr>
      = (Inl ''failed to build transaction: invalid amount format'',
         [AccountDetailCall DefaultPublicNetClient sender_address])
   \<and> strconv_ParseFloat validating_env ''10'' = Inr (Finite 10)
   \<and> operation_error validating_env (Payment recipient_address ''10'' (USDCAsset unset_config))
       = None
   \<and> snd (TransferFunds validating_env unset_config
        \<lparr>FromSecretKey = sender_seed, ToPublicKey = recipient_address, Amount = ''10''\<rparr>)
      = [AccountDetailCall DefaultPublicNetClient sender_address,
         SubmitTransactionCall DefaultPublicNetClient
           \<lparr>tx_SourceAccount = sender_address, tx_Sequence = 8,
            tx_Operations = [Payment recipient_address ''10'' usdc],
            tx_BaseFee = 100,
            tx_TimeBounds = \<lparr>MinTime = 0, MaxTime = 1700000300\<rparr>,
            tx_Signatures = [Signature PublicNetworkPassphrase sender_kp]\<rparr>]"
proof -
  have p1: "keypair_ParseFull validating_env
              (FromSecretKey \<lparr>FromSecretKey = sender_seed, ToPublicKey = recipient_address,
                              Amount = ''NaN''\<rparr>) = Inr sender_kp"
    and p2: "keypair_ParseAddress validating_env
              (ToPublicKey \<lparr>FromSecretKey = sender_seed, ToPublicKey = recipient_address,
                            Amount = ''NaN''\<rparr>) = Inr recipient_address"
    and q1: "keypair_ParseFull validating_env
              (FromSecretKey \<lparr>FromSecretKey = sender_seed, ToPublicKey = recipient_address,
                              Amount = ''10''\<rparr>) = Inr sender_kp"
    and q2: "keypair_ParseAddress validating_env
              (ToPublicKey \<lparr>FromSecretKey = sender_seed, ToPublicKey = recipient_address,
                            Amount = ''10''\<rparr>) = Inr recipient_address"
    by (simp_all add: demo_defs demo_keys)
  have f: "strconv_ParseFloat validating_env ''NaN'' = Inr NaN"
          "strconv_ParseFloat validating_env ''10'' = Inr (Finite 10)"
    by (simp_all add: demo_defs)
  have acc: "AccountDetail validating_env (HorizonClient unset_config) (Address sender_kp)
               = Inr sender_account"
    by (simp add: demo_defs demo_keys)
  have o: "operation_error validating_env
             (Payment recipient_address ''NaN'' (USDCAsset unset_config))
             = Some ''invalid amount format''"
          "operation_error validating_env
             (Payment recipient_address ''10'' (USDCAsset unset_config)) = None"
    by (simp_all add: demo_defs)
  have s: "sign_error validating_env passphrase kps tx = None" for passphrase kps tx
    by (simp add: demo_defs)
  show ?thesis
    using TransferFunds_amount_check [OF p1 p2, of unset_config]
      TransferFunds_amount_check [OF q1 q2, of unset_config]
      p1 p2 f acc o s
    by (simp add: amount_rejected_def sender_account_def sender_kp_def unset_config_def
        main_config_def usdc_def networkPassphrase_def NewTimeout_def MinBaseFee_def
        demo_env_def validating_env_def)
qed

section \<open>Network selection\<close>

text \<open>
  Claim C4. For every configuration the services take the testnet passphrase if and
  only if the \<open>Network\<close> string is exactly ``testnet'', and for every configuration that
  \<open>main\<close> builds the testnet Horizon client and the testnet network passphrase are used
  if and only if \<open>STELLAR_NETWORK\<close> is exactly ``testnet''; every other value, the
  empty string of an unset variable included, selects the public client and the public
  passphrase. Every call of the ledger node made by the three operations goes to the
  selected client, and every signature on a submitted envelope is bound to the selected
  passphrase.
\<close>

theorem network_selection:
  "(networkPassphrase cfg = TestNetworkPassphrase \<longleftrightarrow> Network cfg = ''testnet'')
   \<and> (HorizonClient (main_config getenv) = DefaultTestNetClient
      \<longleftrightarrow> getenv ''STELLAR_NETWORK'' = ''testnet'')
   \<and> (networkPassphrase (main_config getenv) = TestNetworkPassphrase
      \<longleftrightarrow> getenv ''STELLAR_NETWORK'' = ''testnet'')
   \<and> (getenv ''STELLAR_NETWORK'' \<noteq> ''testnet'' \<longrightarrow>
        HorizonClient (main_config getenv) = DefaultPublicNetClient \<and>
        networkPassphrase (main_config getenv) = PublicNetworkPassphrase)
   \<and> (\<forall>ev \<in> set (snd (CreateWallet E (main_config getenv))).
        event_client ev = HorizonClient (main_config getenv))
   \<and> (\<forall>ev \<in> set (snd (GetWalletDetails E (main_config getenv) publicKey)).
        event_client ev = HorizonClient (main_config getenv))
   \<and> (\<forall>ev \<in> set (snd (TransferFunds E (main_config getenv) req)).
        event_client ev = HorizonClient (main_config getenv))
   \<and> (\<forall>c tx passphrase kp.
        (SubmitTransactionCall c tx \<in> set (snd (CreateWallet E (main_config getenv))) \<or>
         SubmitTransactionCall c tx \<in> set (snd (TransferFunds E (main_config getenv) req))) \<and>
        Signature passphrase kp \<in> set (tx_Signatures tx) \<longrightarrow>
        passphrase = networkPassphrase (main_config getenv))"
proof -
  have sel: "(HorizonClient (main_config getenv) = DefaultTestNetClient
      \<longleftrightarrow> getenv ''STELLAR_NETWORK'' = ''testnet'')
   \<and> (networkPassphrase (main_config getenv) = TestNetworkPassphrase
      \<longleftrightarrow> getenv ''STELLAR_NETWORK'' = ''testnet'')
   \<and> (getenv ''STELLAR_NETWORK'' \<noteq> ''testnet'' \<longrightarrow>
        HorizonClient (main_config getenv) = DefaultPublicNetClient \<and>
        networkPassphrase (main_config getenv) = PublicNetworkPassphrase)"
    using passphrases_differ by (simp add: main_config_def networkPassphrase_def)
  have sigs: "passphrase = networkPassphrase cfg"
    if "SubmitTransactionCall c tx \<in> set (snd (CreateWallet E cfg)) \<or>
        SubmitTransactionCall c tx \<in> set (snd (TransferFunds E cfg req))"
       "Signature passphrase kp \<in> set (tx_Signatures tx)"
    for c tx passphrase kp cfg
    using that CreateWallet_submitted [of c tx E cfg] TransferFunds_submitted [of c tx E cfg req]
    by auto
  have pass: "networkPassphrase cfg = TestNetworkPassphrase \<longleftrightarrow> Network cfg = ''testnet''"
    using passphrases_differ by (simp add: networkPassphrase_def)
  show ?thesis
    using pass sel CreateWallet_clients GetWalletDetails_clients TransferFunds_clients sigs
    by blast
qed

theorem network_selection_witness:
  "HorizonClient unset_config = DefaultPublicNetClient
   \<and> networkPassphrase unset_config = PublicNetworkPassphrase
   \<and> Network unset_config = ''''
   \<and> HorizonClient testnet_config = DefaultTestNetClient
   \<and> networkPassphrase testnet_config = TestNetworkPassphrase
   \<and> map event_client (snd (CreateWallet demo_env unset_config))
       = [DefaultPublicNetClient, DefaultPublicNetClient]
   \<and> map event_client (snd (CreateWallet demo_env testnet_config))
       = [DefaultTestNetClient, DefaultTestNetClient]"
proof -
  have u: "HorizonClient unset_config = DefaultPublicNetClient
      \<and> networkPassphrase unset_config = PublicNetworkPassphrase"
    using network_selection
            [of _ "\<lambda>name. if name = ''MASTER_SECRET_KEY'' then master_seed else ''''"]
    by (simp add: unset_config_def)
  have t: "HorizonClient testnet_config = DefaultTestNetClient
      \<and> networkPassphrase testnet_config = TestNetworkPassphrase"
    using network_selection
            [of _ "\<lambda>name. if name = ''STELLAR_NETWORK'' then ''testnet''
                         else if name = ''MASTER_SECRET_KEY'' then master_seed else ''''"]
    by (simp add: testnet_config_def)
  have n: "Network unset_config = ''''"
    by (simp add: unset_config_def main_config_def)
  have c1: "map event_client (snd (CreateWallet demo_env unset_config))
       = [DefaultPublicNetClient, DefaultPublicNetClient]"
    by (simp add: service_defs demo_defs demo_keys)
  have c2: "map event_client (snd (CreateWallet demo_env testnet_config))
       = [DefaultTestNetClient, DefaultTestNetClient]"
    by (simp add: service_defs demo_defs demo_keys)
  show ?thesis using u t n c1 c2 by simp
qed

section \<open>The envelope\<close>

text \<open>
  Claim C5. For every envelope built by \<open>CreateWallet\<close> and by \<open>TransferFunds\<close>, the
  sequence number is that of the fetched source account incremented exactly once (not
  once per operation: the three-operation envelope of \<open>CreateWallet\<close> has the sequence
  number plus one, not plus three), the operations are in the order given, and the
  upper time bound is the current time plus 300 seconds. This holds for the envelope
  as built and for the signed envelope that is submitted.
\<close>

theorem envelope_sequence_order_expiry:
  "(NewTransaction E p = Inr tx0 \<and> IncrementSequenceNum p \<longrightarrow>
      tx_Sequence tx0 = Sequence (SourceAccount p) + 1 \<and>
      tx_Operations tx0 = Operations p)
   \<and> (CreateWallet_build E cfg publicKey line sourceAccount = Inr tx \<longrightarrow>
      tx_Sequence tx = Sequence sourceAccount + 1 \<and>
      tx_Sequence tx \<noteq> Sequence sourceAccount + 3 \<and>
      tx_Operations tx = [CreateAccount publicKey ''0.5'', ChangeTrust line,
                          Payment publicKey ''100'' (USDCAsset cfg)] \<and>
      tx_TimeBounds tx = \<lparr>MinTime = 0, MaxTime = time_Now E + 300\<rparr>)
   \<and> (TransferFunds_build E cfg req sourceAccount = Inr tx' \<longrightarrow>
      tx_Sequence tx' = Sequence sourceAccount + 1 \<and>
      tx_Operations tx' = [Payment (ToPublicKey req) (Amount req) (USDCAsset cfg)] \<and>
      tx_TimeBounds tx' = \<lparr>MinTime = 0, MaxTime = time_Now E + 300\<rparr>)
   \<and> (SubmitTransactionCall c stx \<in> set (snd (CreateWallet E cfg)) \<longrightarrow>
      (\<exists>kp masterFullKP account.
         keypair_Random E = Inr kp \<and>
         keypair_Parse E (MasterSecret cfg) = Inr (KPFull masterFullKP) \<and>
         AccountDetail E (HorizonClient cfg) (Address masterFullKP) = Inr account \<and>
         tx_Sequence stx = Sequence account + 1 \<and>
         tx_Operations stx = [CreateAccount (Address kp) ''0.5'',
                              ChangeTrust (ChangeTrustAssetWrapper (USDCAsset cfg)),
                              Payment (Address kp) ''100'' (USDCAsset cfg)] \<and>
         tx_TimeBounds stx = \<lparr>MinTime = 0, MaxTime = time_Now E + 300\<rparr>))
   \<and> (SubmitTransactionCall c' stx' \<in> set (snd (TransferFunds E cfg req)) \<longrightarrow>
      (\<exists>senderKP account.
         keypair_ParseFull E (FromSecretKey req) = Inr senderKP \<and>
         AccountDetail E (HorizonClient cfg) (Address senderKP) = Inr account \<and>
         tx_Sequence stx' = Sequence account + 1 \<and>
         tx_Operations stx' = [Payment (ToPublicKey req) (Amount req) (USDCAsset cfg)] \<and>
         tx_TimeBounds stx' = \<lparr>MinTime = 0, MaxTime = time_Now E + 300\<rparr>))"
proof -
  have general: "NewTransaction E p = Inr tx0 \<and> IncrementSequenceNum p \<longrightarrow>
      tx_Sequence tx0 = Sequence (SourceAccount p) + 1 \<and> tx_Operations tx0 = Operations p"
    by (auto dest!: NewTransaction_Inr)
  have create: "CreateWallet_build E cfg publicKey line sourceAccount = Inr tx \<longrightarrow>
      tx_Sequence tx = Sequence sourceAccount + 1 \<and>
      tx_Sequence tx \<noteq> Sequence sourceAccount + 3 \<and>
      tx_Operations tx = [CreateAccount publicKey ''0.5'', ChangeTrust line,
                          Payment publicKey ''100'' (USDCAsset cfg)] \<and>
      tx_TimeBounds tx = \<lparr>MinTime = 0, MaxTime = time_Now E + 300\<rparr>"
    by (auto dest: CreateWallet_build_Inr)
  have transfer: "TransferFunds_build E cfg req sourceAccount = Inr tx' \<longrightarrow>
      tx_Sequence tx' = Sequence sourceAccount + 1 \<and>
      tx_Operations tx' = [Payment (ToPublicKey req) (Amount req) (USDCAsset cfg)] \<and>
      tx_TimeBounds tx' = \<lparr>MinTime = 0, MaxTime = time_Now E + 300\<rparr>"
    by (auto dest: TransferFunds_build_Inr)
  have sub_create: "SubmitTransactionCall c stx \<in> set (snd (CreateWallet E cfg)) \<longrightarrow>
      (\<exists>kp masterFullKP account.
         keypair_Random E = Inr kp \<and>
         keypair_Parse E (MasterSecret cfg) = Inr (KPFull masterFullKP) \<and>
         AccountDetail E (HorizonClient cfg) (Address masterFullKP) = Inr account \<and>
         tx_Sequence stx = Sequence account + 1 \<and>
         tx_Operations stx = [CreateAccount (Address kp) ''0.5'',
                              ChangeTrust (ChangeTrustAssetWrapper (USDCAsset cfg)),
                              Payment (Address kp) ''100'' (USDCAsset cfg)] \<and>
         tx_TimeBounds stx = \<lparr>MinTime = 0, MaxTime = time_Now E + 300\<rparr>)"
  proof
    assume "SubmitTransactionCall c stx \<in> set (snd (CreateWallet E cfg))"
    from CreateWallet_submitted [OF this] obtain kp masterFullKP account tx where
      f: "keypair_Random E = Inr kp"
         "keypair_Parse E (MasterSecret cfg) = Inr (KPFull masterFullKP)"
         "AccountDetail E (HorizonClient cfg) (Address masterFullKP) = Inr account"
      and b: "CreateWallet_build E cfg (Address kp) (ChangeTrustAssetWrapper (USDCAsset cfg))
             account = Inr tx"
      and s: "stx = tx\<lparr>tx_Signatures := [Signature (networkPassphrase cfg) masterFullKP,
                                       Signature (networkPassphrase cfg) kp]\<rparr>"
      by blast
    show "\<exists>kp masterFullKP account.
         keypair_Random E = Inr kp \<and>
         keypair_Parse E (MasterSecret cfg) = Inr (KPFull masterFullKP) \<and>
         AccountDetail E (HorizonClient cfg) (Address masterFullKP) = Inr account \<and>
         tx_Sequence stx = Sequence account + 1 \<and>
         tx_Operations stx = [CreateAccount (Address kp) ''0.5'',
                              ChangeTrust (ChangeTrustAssetWrapper (USDCAsset cfg)),
                              Payment (Address kp) ''100'' (USDCAsset cfg)] \<and>
         tx_TimeBounds stx = \<lparr>MinTime = 0, MaxTime = time_Now E + 300\<rparr>"
      using f s CreateWallet_build_Inr(2,3,5) [OF b] by simp
  qed
  have sub_transfer: "SubmitTransactionCall c' stx' \<in> set (snd (TransferFunds E cfg req)) \<longrightarrow>
      (\<exists>senderKP account.
         keypair_ParseFull E (FromSecretKey req) = Inr senderKP \<and>
         AccountDetail E (HorizonClient cfg) (Address senderKP) = Inr account \<and>
         tx_Sequence stx' = Sequence account + 1 \<and>
         tx_Operations stx' = [Payment (ToPublicKey req) (Amount req) (USDCAsset cfg)] \<and>
         tx_TimeBounds stx' = \<lparr>MinTime = 0, MaxTime = time_Now E + 300\<rparr>)"
  proof
    assume "SubmitTransactionCall c' stx' \<in> set (snd (TransferFunds E cfg req))"
    from TransferFunds_submitted [OF this] obtain senderKP account tx where
      f: "keypair_ParseFull E (FromSecretKey req) = Inr senderKP"
         "AccountDetail E (HorizonClient cfg) (Address senderKP) = Inr account"
      and b: "TransferFunds_build E cfg req account = Inr tx"
      and s: "stx' = tx\<lparr>tx_Signatures := [Signature (networkPassphrase cfg) senderKP]\<rparr>"
      by blast
    show "\<exists>senderKP account.
         keypair_ParseFull E (FromSecretKey req) = Inr senderKP \<and>
         AccountDetail E (HorizonClient cfg) (Address senderKP) = Inr account \<and>
         tx_Sequence stx' = Sequence account + 1 \<and>
         tx_Operations stx' = [Payment (ToPublicKey req) (Amount req) (USDCAsset cfg)] \<and>
         tx_TimeBounds stx' = \<lparr>MinTime = 0, MaxTime = time_Now E + 300\<rparr>"
      using f s TransferFunds_build_Inr(2,3,5) [OF b] by simp
  qed
  show ?thesis
    using general create transfer sub_create sub_transfer by (intro conjI)
qed

theorem envelope_sequence_order_expiry_witness:
  "CreateWallet_build demo_env testnet_config new_address (ChangeTrustAssetWrapper usdc)
      master_account
    = Inr \<lparr>tx_SourceAccount = master_address, tx_Sequence = 42,
           tx_Operations = [CreateAccount new_address ''0.5'',
                            ChangeTrust (ChangeTrustAssetWrapper usdc),
                            Payment new_address ''100'' usdc],
           tx_BaseFee = 100,
           tx_TimeBounds = \<lparr>MinTime = 0, MaxTime = 1700000300\<rparr>,
           tx_Signatures = []\<rparr>
   \<and> Sequence master_account = 41
   \<and> time_Now demo_env = 1700000000
   \<and> (42 :: 64 word) = Sequence master_account + 1
   \<and> (1700000300 :: int) = time_Now demo_env + 300"
  using envelope_sequence_order_expiry
          [of demo_env _ _ testnet_config new_address "ChangeTrustAssetWrapper usdc"
              master_account
              "\<lparr>tx_SourceAccount = master_address, tx_Sequence = 42,
                tx_Operations = [CreateAccount new_address ''0.5'',
                                 ChangeTrust (ChangeTrustAssetWrapper usdc),
                                 Payment new_address ''100'' usdc],
                tx_BaseFee = 100,
                tx_TimeBounds = \<lparr>MinTime = 0, MaxTime = 1700000300\<rparr>,
                tx_Signatures = []\<rparr>"]
        demo_create_build
  by (simp add: master_account_def demo_env_def)

section \<open>Submission\<close>

text \<open>
  Claim C8. In every execution of \<open>CreateWallet\<close> and of \<open>TransferFunds\<close> the envelope
  is submitted at most once, and the account is fetched at most once. A failed
  submission is the last call made: its error is returned to the caller, as
  ``transaction failed: '' followed by the node's detail text when the error is a
  Horizon error and as ``failed to submit transaction: '' followed by the error text
  otherwise, and nothing is submitted or fetched again.
\<close>

theorem at_most_one_submission:
  "length (filter is_submit (snd (CreateWallet E cfg))) \<le> 1
   \<and> length (filter is_submit (snd (TransferFunds E cfg req))) \<le> 1
   \<and> length (filter (\<lambda>ev. \<not> is_submit ev) (snd (CreateWallet E cfg))) \<le> 1
   \<and> length (filter (\<lambda>ev. \<not> is_submit ev) (snd (TransferFunds E cfg req))) \<le> 1
   \<and> (SubmitTransactionCall c tx \<in> set (snd (CreateWallet E cfg)) \<and>
        SubmitTransaction E c tx = Inl err \<longrightarrow>
        fst (CreateWallet E cfg) = Inl (submit_failure err) \<and>
        last (snd (CreateWallet E cfg)) = SubmitTransactionCall c tx)
   \<and> (SubmitTransactionCall c' tx' \<in> set (snd (TransferFunds E cfg req)) \<and>
        SubmitTransaction E c' tx' = Inl err' \<longrightarrow>
        fst (TransferFunds E cfg req) = Inl (submit_failure err') \<and>
        last (snd (TransferFunds E cfg req)) = SubmitTransactionCall c' tx')
   \<and> submit_failure (HorizonError st d t) = ''transaction failed: '' @ d
   \<and> submit_failure (OtherError t) = ''failed to submit transaction: '' @ t"
proof -
  have a: "length (filter is_submit (snd (CreateWallet E cfg))) \<le> 1
      \<and> length (filter (\<lambda>ev. \<not> is_submit ev) (snd (CreateWallet E cfg))) \<le> 1"
    by (auto simp: CreateWallet_def split: sum.splits KP.splits)
  have b: "length (filter is_submit (snd (TransferFunds E cfg req))) \<le> 1
      \<and> length (filter (\<lambda>ev. \<not> is_submit ev) (snd (TransferFunds E cfg req))) \<le> 1"
    by (auto simp: TransferFunds_def split: sum.splits)
  have c: "SubmitTransactionCall c tx \<in> set (snd (CreateWallet E cfg)) \<and>
        SubmitTransaction E c tx = Inl err \<longrightarrow>
        fst (CreateWallet E cfg) = Inl (submit_failure err) \<and>
        last (snd (CreateWallet E cfg)) = SubmitTransactionCall c tx"
    by (auto simp: CreateWallet_def split: sum.splits KP.splits)
  have d: "SubmitTransactionCall c' tx' \<in> set (snd (TransferFunds E cfg req)) \<and>
        SubmitTransaction E c' tx' = Inl err' \<longrightarrow>
        fst (TransferFunds E cfg req) = Inl (submit_failure err') \<and>
        last (snd (TransferFunds E cfg req)) = SubmitTransactionCall c' tx'"
    by (auto simp: TransferFunds_def split: sum.splits if_splits)
  show ?thesis using a b c d by simp
qed

theorem at_most_one_submission_witness:
  "CreateWallet rejecting_env unset_config =
     (Inl ''transaction failed: tx_bad_seq'',
      [AccountDetailCall DefaultPublicNetClient master_address,
       SubmitTransactionCall DefaultPublicNetClient
         \<lparr>tx_SourceAccount = master_address, tx_Sequence = 42,
          tx_Operations = [CreateAccount new_address ''0.5'',
                           ChangeTrust (ChangeTrustAssetWrapper usdc),
                           Payment new_address ''100'' usdc],
          tx_BaseFee = 100,
          tx_TimeBounds = \<lparr>MinTime = 0, MaxTime = 1700000300\<rparr>,
          tx_Signatures = [Signature PublicNetworkPassphrase master_kp,
                           Signature PublicNetworkPassphrase new_kp]\<rparr>])
   \<and> length (filter is_submit (snd (CreateWallet rejecting_env unset_config))) = 1
   \<and> fst (CreateWallet rejecting_env unset_config)
       = Inl (submit_failure (HorizonError 400 ''tx_bad_seq'' ''horizon error: Transaction Failed''))"
  using at_most_one_submission
          [of rejecting_env unset_config _ DefaultPublicNetClient
              "\<lparr>tx_SourceAccount = master_address, tx_Sequence = 42,
          tx_Operations = [CreateAccount new_address ''0.5'',
                           ChangeTrust (ChangeTrustAssetWrapper usdc),
                           Payment new_address ''100'' usdc],
          tx_BaseFee = 100,
          tx_TimeBounds = \<lparr>MinTime = 0, MaxTime = 1700000300\<rparr>,
          tx_Signatures = [Signature PublicNetworkPassphrase master_kp,
                           Signature PublicNetworkPassphrase new_kp]\<rparr>"
              "HorizonError 400 ''tx_bad_seq'' ''horizon error: Transaction Failed''"]
        rejected_create rejecting_submit
  by simp

section \<open>Controllers\<close>

text \<open>
  Claim C7 says that errors are identified by a closed set of tagged kinds and that the
  controllers branch on the kind, never on the message text. The errors of the service
  are made by \<open>errors.New\<close> and carry a text only, and the controllers compare
  \<open>err.Error()\<close> with fixed strings: changing one character of the text changes the
  status from 400 to 500.
\<close>

theorem controller_status_counterexample:
  "GetWalletDetails_respond (Inl ''invalid public key format'')
     = (400, ErrorBody ''invalid public key format'')
   \<and> GetWalletDetails_respond (Inl ''Invalid public key format'')
     = (500, ErrorBody ''Invalid public key format'')
   \<and> TransferFunds_respond (Inl ''invalid sender secret key'')
     = (400, ErrorBody ''invalid sender secret key'')
   \<and> TransferFunds_respond (Inl ''invalid sender secret key.'')
     = (500, ErrorBody ''invalid sender secret key.'')"
  by (simp add: GetWalletDetails_respond_def TransferFunds_respond_def StatusBadRequest_def
      StatusInternalServerError_def)

text \<open>
  Claim C7, amended. Errors are plain Go errors identified by their message text, and
  the HTTP controllers branch on that text: \<open>GetWalletDetails\<close> answers 400 exactly when
  the text is ``invalid public key format'' and 500 for every other error;
  \<open>TransferFunds\<close> answers 400 exactly when the text is one of ``invalid sender secret
  key'', ``invalid recipient public key'' and ``invalid amount: must be a positive
  number'', and 500 for every other error; \<open>CreateWallet\<close> answers 500 for every error.
  The texts compared are those of the validation failures, so that 400 is answered
  exactly when an input of the request is invalid.
\<close>

theorem controllers_compare_message_text:
  "(fst (WalletController_GetWalletDetails E cfg publicKey) = StatusBadRequest
      \<longleftrightarrow> fst (GetWalletDetails E cfg publicKey) = Inl ''invalid public key format'')
   \<and> (fst (WalletController_GetWalletDetails E cfg publicKey) = StatusInternalServerError
      \<longleftrightarrow> (\<exists>err. fst (GetWalletDetails E cfg publicKey) = Inl err
                 \<and> err \<noteq> ''invalid public key format''))
   \<and> (fst (WalletController_TransferFunds E cfg (Inr req)) = StatusBadRequest
      \<longleftrightarrow> fst (TransferFunds E cfg req) = Inl ''invalid sender secret key''
           \<or> fst (TransferFunds E cfg req) = Inl ''invalid recipient public key''
           \<or> fst (TransferFunds E cfg req) = Inl ''invalid amount: must be a positive number'')
   \<and> (fst (WalletController_TransferFunds E cfg (Inr req)) = StatusInternalServerError
      \<longleftrightarrow> (\<exists>err. fst (TransferFunds E cfg req) = Inl err
                 \<and> err \<noteq> ''invalid sender secret key''
                 \<and> err \<noteq> ''invalid recipient public key''
                 \<and> err \<noteq> ''invalid amount: must be a positive number''))
   \<and> (fst (WalletController_CreateWallet E cfg) = StatusInternalServerError
      \<longleftrightarrow> (\<exists>err. fst (CreateWallet E cfg) = Inl err))
   \<and> (fst (WalletController_GetWalletDetails E cfg publicKey) = StatusBadRequest
      \<longleftrightarrow> isl (keypair_ParseAddress E publicKey))
   \<and> (fst (WalletController_TransferFunds E cfg (Inr req)) = StatusBadRequest
      \<longleftrightarrow> invalid_fields E req \<noteq> [])"
proof -
  have st: "StatusBadRequest \<noteq> StatusInternalServerError" "StatusOK \<noteq> StatusBadRequest"
    "StatusOK \<noteq> StatusInternalServerError"
    by (simp_all add: StatusBadRequest_def StatusInternalServerError_def StatusOK_def)
  have g1: "fst (WalletController_GetWalletDetails E cfg publicKey) = StatusBadRequest
      \<longleftrightarrow> fst (GetWalletDetails E cfg publicKey) = Inl ''invalid public key format''"
    using st by (auto simp: WalletController_GetWalletDetails_def GetWalletDetails_respond_def
        split: sum.splits)
  have g2: "fst (WalletController_GetWalletDetails E cfg publicKey) = StatusInternalServerError
      \<longleftrightarrow> (\<exists>err. fst (GetWalletDetails E cfg publicKey) = Inl err
                 \<and> err \<noteq> ''invalid public key format'')"
    using st by (auto simp: WalletController_GetWalletDetails_def GetWalletDetails_respond_def
        split: sum.splits)
  have t1: "fst (WalletController_TransferFunds E cfg (Inr req)) = StatusBadRequest
      \<longleftrightarrow> fst (TransferFunds E cfg req) = Inl ''invalid sender secret key''
           \<or> fst (TransferFunds E cfg req) = Inl ''invalid recipient public key''
           \<or> fst (TransferFunds E cfg req) = Inl ''invalid amount: must be a positive number''"
    using st by (auto simp: WalletController_TransferFunds_def TransferFunds_respond_def
        split: sum.splits)
  have t2: "fst (WalletController_TransferFunds E cfg (Inr req)) = StatusInternalServerError
      \<longleftrightarrow> (\<exists>err. fst (TransferFunds E cfg req) = Inl err
                 \<and> err \<noteq> ''invalid sender secret key''
                 \<and> err \<noteq> ''invalid recipient public key''
                 \<and> err \<noteq> ''invalid amount: must be a positive number'')"
    using st by (auto simp: WalletController_TransferFunds_def TransferFunds_respond_def
        split: sum.splits)
  have c1: "fst (WalletController_CreateWallet E cfg) = StatusInternalServerError
      \<longleftrightarrow> (\<exists>err. fst (CreateWallet E cfg) = Inl err)"
    using st by (auto simp: WalletController_CreateWallet_def CreateWallet_respond_def
        split: sum.splits)
  have g3: "fst (GetWalletDetails E cfg publicKey) = Inl ''invalid public key format''
      \<longleftrightarrow> isl (keypair_ParseAddress E publicKey)"
    by (auto simp: GetWalletDetails_def StatusNotFound_def split: sum.splits client_error.splits)
  have t3: "fst (TransferFunds E cfg req) = Inl ''invalid sender secret key''
           \<or> fst (TransferFunds E cfg req) = Inl ''invalid recipient public key''
           \<or> fst (TransferFunds E cfg req) = Inl ''invalid amount: must be a positive number''
      \<longleftrightarrow> invalid_fields E req \<noteq> []"
    by (auto simp: TransferFunds_def invalid_fields_def submit_failure_not_validation
        split: sum.splits)
  show ?thesis using g1 g2 t1 t2 c1 g3 t3 by simp
qed

theorem controllers_compare_message_text_witness:
  "WalletController_GetWalletDetails demo_env unset_config ''not-an-address''
     = (400, ErrorBody ''invalid public key format'')
   \<and> fst (WalletController_GetWalletDetails demo_env unset_config ''not-an-address'')
     = StatusBadRequest
   \<and> isl (keypair_ParseAddress demo_env ''not-an-address'')"
  using controllers_compare_message_text [of demo_env unset_config "''not-an-address''"]
        demo_parse_garbage
  by (simp add: WalletController_GetWalletDetails_def GetWalletDetails_respond_def
      GetWalletDetails_def StatusBadRequest_def)

end
